theory Spec2Isabelle
  imports Complex_Main
begin

section \<open>Memory Store: \<open>src/features/persistence\<close>\<close>

subsection \<open>Data (\<open>types.ts\<close>)\<close>

text \<open>
  \<open>ActionOutcome\<close> and \<open>GameMemory\<close> are the interfaces of \<open>persistence/types.ts\<close>.
  The event counters of a memory start at 0 (\<open>initializeMemory\<close>) and are only ever
  incremented or reset to 0, so they are natural numbers; gold amounts are integers.

  A JavaScript array is an object on the heap and a field holds a reference to it.
  \<open>updateMemory\<close> copies the memory object shallowly and then calls \<open>push\<close> on the copied
  reference, so the field \<open>recentActions\<close> is an address into an explicit store of arrays.
  \<open>itemsPurchased\<close> is never written by the code modelled here and is kept as a value.
\<close>

record ActionOutcome =
  action :: string
  success :: bool
  goldChange :: int
  expChange :: int
  timestamp :: nat
  details :: "string option"

record PurchasedItem =
  purchased_id :: nat
  purchased_name :: string
  purchased_cost :: int

type_synonym ref = nat

record heap =
  arrays :: "ref \<Rightarrow> ActionOutcome list"
  fresh :: ref

record GameMemory =
  totalActions :: nat
  totalBattles :: nat
  battlesWon :: nat
  battlesLost :: nat
  goldEarned :: int
  goldSpent :: int
  itemsPurchased :: "PurchasedItem list"
  recentActions :: ref
  consecutiveWins :: nat
  consecutiveLosses :: nat
  bestWinStreak :: nat

subsection \<open>Array operations on the store\<close>

definition alloc :: "heap \<Rightarrow> ActionOutcome list \<Rightarrow> ref \<times> heap" where
  \<comment> \<open>an array literal or the result of \<open>slice\<close>: a new array at an unused address\<close>
  "alloc h xs = (fresh h, h\<lparr>arrays := (arrays h)(fresh h := xs), fresh := Suc (fresh h)\<rparr>)"

definition push :: "heap \<Rightarrow> ref \<Rightarrow> ActionOutcome \<Rightarrow> heap" where
  \<comment> \<open>\<open>Array.prototype.push\<close>: appends in place\<close>
  "push h r x = h\<lparr>arrays := (arrays h)(r := arrays h r @ [x])\<rparr>"

definition slice_neg :: "nat \<Rightarrow> 'a list \<Rightarrow> 'a list" where
  \<comment> \<open>\<open>xs.slice(-k)\<close>: the start index is \<open>max (length - k) 0\<close>\<close>
  "slice_neg k xs = drop (length xs - k) xs"

subsection \<open>\<open>MemoryManager.initializeMemory\<close> and \<open>MemoryManager.updateMemory\<close>\<close>

definition initializeMemory :: "heap \<Rightarrow> GameMemory \<times> heap" where
  "initializeMemory h =
     (let (r, h') = alloc h []
      in (\<lparr>totalActions = 0, totalBattles = 0, battlesWon = 0, battlesLost = 0,
           goldEarned = 0, goldSpent = 0, itemsPurchased = [], recentActions = r,
           consecutiveWins = 0, consecutiveLosses = 0, bestWinStreak = 0\<rparr>, h'))"

definition trimRecent :: "heap \<Rightarrow> GameMemory \<Rightarrow> GameMemory \<times> heap" where
  \<comment> \<open>lines 100-103: keep only the last 30 actions\<close>
  "trimRecent h newMemory =
     (if length (arrays h (recentActions newMemory)) > 30
      then (let (r, h') = alloc h (slice_neg 30 (arrays h (recentActions newMemory)))
            in (newMemory\<lparr>recentActions := r\<rparr>, h'))
      else (newMemory, h))"

definition battleStats :: "GameMemory \<Rightarrow> ActionOutcome \<Rightarrow> GameMemory" where
  \<comment> \<open>lines 105-118: update battle-specific stats\<close>
  "battleStats newMemory outcome =
     (if action outcome = ''fightMonster'' then
        (let m1 = newMemory\<lparr>totalBattles := totalBattles newMemory + 1\<rparr>
         in if success outcome then
              (let m2 = m1\<lparr>battlesWon := battlesWon m1 + 1\<rparr>;
                   m3 = m2\<lparr>consecutiveWins := consecutiveWins m2 + 1\<rparr>;
                   m4 = m3\<lparr>consecutiveLosses := 0\<rparr>
               in m4\<lparr>bestWinStreak := max (bestWinStreak m4) (consecutiveWins m4)\<rparr>)
            else
              (let m2 = m1\<lparr>battlesLost := battlesLost m1 + 1\<rparr>;
                   m3 = m2\<lparr>consecutiveLosses := consecutiveLosses m2 + 1\<rparr>
               in m3\<lparr>consecutiveWins := 0\<rparr>))
      else newMemory)"

definition goldStats :: "GameMemory \<Rightarrow> ActionOutcome \<Rightarrow> GameMemory" where
  \<comment> \<open>lines 120-122: update gold stats\<close>
  "goldStats newMemory outcome =
     (let m1 = (if goldChange outcome > 0
                then newMemory\<lparr>goldEarned := goldEarned newMemory + goldChange outcome\<rparr>
                else newMemory)
      in if goldChange outcome < 0
         then m1\<lparr>goldSpent := goldSpent m1 + \<bar>goldChange outcome\<bar>\<rparr>
         else m1)"

definition updateMemory :: "heap \<Rightarrow> GameMemory \<Rightarrow> ActionOutcome \<Rightarrow> GameMemory \<times> heap" where
  "updateMemory h currentMemory outcome =
     (let newMemory = currentMemory;
          newMemory = newMemory\<lparr>totalActions := totalActions newMemory + 1\<rparr>;
          h1 = push h (recentActions newMemory) outcome;
          (newMemory, h2) = trimRecent h1 newMemory;
          newMemory = battleStats newMemory outcome;
          newMemory = goldStats newMemory outcome
      in (newMemory, h2))"

text \<open>
  Sequential use, as \<open>BotEngine.executeTurn\<close> does it: the memory returned by one update is
  the input of the next. \<open>recentOf\<close> reads the array a memory refers to.
\<close>

definition recentOf :: "GameMemory \<times> heap \<Rightarrow> ActionOutcome list" where
  "recentOf s = arrays (snd s) (recentActions (fst s))"

definition updateAll :: "GameMemory \<times> heap \<Rightarrow> ActionOutcome list \<Rightarrow> GameMemory \<times> heap" where
  "updateAll s outcomes = foldl (\<lambda>(m, h) outcome. updateMemory h m outcome) s outcomes"

definition winsAfter :: "heap \<Rightarrow> ActionOutcome list \<Rightarrow> nat \<Rightarrow> nat" where
  \<comment> \<open>\<open>consecutiveWins\<close> after the first \<open>k\<close> updates of a run from the zero state\<close>
  "winsAfter h outcomes k =
     consecutiveWins (fst (updateAll (initializeMemory h) (take k outcomes)))"

definition emptyHeap :: heap where
  "emptyHeap = \<lparr>arrays = (\<lambda>_. []), fresh = 0\<rparr>"

section \<open>JavaScript values used by the services\<close>

subsection \<open>Numbers\<close>

text \<open>
  A JavaScript number is a double. The model keeps what the code below can observe of
  the special values: the two infinities and \<open>NaN\<close>, which division by zero and
  \<open>parseInt\<close> produce. Finite arithmetic is exact (rounding, overflow and the sign of
  zero are not modelled).
\<close>

datatype jsnum = Fin real | PInf | NInf | NaN

fun jadd :: "jsnum \<Rightarrow> jsnum \<Rightarrow> jsnum" where
  "jadd (Fin a) (Fin b) = Fin (a + b)"
| "jadd NaN _ = NaN"
| "jadd _ NaN = NaN"
| "jadd PInf NInf = NaN"
| "jadd NInf PInf = NaN"
| "jadd PInf _ = PInf"
| "jadd _ PInf = PInf"
| "jadd NInf _ = NInf"
| "jadd _ NInf = NInf"

fun jneg :: "jsnum \<Rightarrow> jsnum" where
  "jneg (Fin a) = Fin (- a)"
| "jneg PInf = NInf"
| "jneg NInf = PInf"
| "jneg NaN = NaN"

definition jsub :: "jsnum \<Rightarrow> jsnum \<Rightarrow> jsnum" where
  "jsub a b = jadd a (jneg b)"

fun jmul :: "jsnum \<Rightarrow> jsnum \<Rightarrow> jsnum" where
  "jmul (Fin a) (Fin b) = Fin (a * b)"
| "jmul NaN _ = NaN"
| "jmul _ NaN = NaN"
| "jmul (Fin a) PInf = (if a = 0 then NaN else if 0 < a then PInf else NInf)"
| "jmul (Fin a) NInf = (if a = 0 then NaN else if 0 < a then NInf else PInf)"
| "jmul PInf (Fin b) = (if b = 0 then NaN else if 0 < b then PInf else NInf)"
| "jmul NInf (Fin b) = (if b = 0 then NaN else if 0 < b then NInf else PInf)"
| "jmul PInf PInf = PInf"
| "jmul PInf NInf = NInf"
| "jmul NInf PInf = NInf"
| "jmul NInf NInf = PInf"

fun jdiv :: "jsnum \<Rightarrow> jsnum \<Rightarrow> jsnum" where
  "jdiv (Fin a) (Fin b) =
     (if b \<noteq> 0 then Fin (a / b)
      else if 0 < a then PInf else if a < 0 then NInf else NaN)"
| "jdiv NaN _ = NaN"
| "jdiv _ NaN = NaN"
| "jdiv (Fin a) _ = Fin 0"
| "jdiv PInf (Fin b) = (if 0 \<le> b then PInf else NInf)"
| "jdiv NInf (Fin b) = (if 0 \<le> b then NInf else PInf)"
| "jdiv _ _ = NaN"

fun jlt :: "jsnum \<Rightarrow> jsnum \<Rightarrow> bool" where
  "jlt (Fin a) (Fin b) = (a < b)"
| "jlt NaN _ = False"
| "jlt _ NaN = False"
| "jlt PInf _ = False"
| "jlt _ NInf = False"
| "jlt _ _ = True"

definition jgt :: "jsnum \<Rightarrow> jsnum \<Rightarrow> bool" where
  "jgt a b = jlt b a"

definition jge :: "jsnum \<Rightarrow> jsnum \<Rightarrow> bool" where
  "jge a b = (a \<noteq> NaN \<and> b \<noteq> NaN \<and> \<not> jlt a b)"

definition Math_max :: "jsnum \<Rightarrow> jsnum \<Rightarrow> jsnum" where
  "Math_max a b = (if a = NaN \<or> b = NaN then NaN else if jlt a b then b else a)"

definition Math_min :: "jsnum \<Rightarrow> jsnum \<Rightarrow> jsnum" where
  "Math_min a b = (if a = NaN \<or> b = NaN then NaN else if jlt b a then b else a)"

fun Math_ceil :: "jsnum \<Rightarrow> jsnum" where
  "Math_ceil (Fin a) = Fin (of_int \<lceil>a\<rceil>)"
| "Math_ceil x = x"

definition num :: "int \<Rightarrow> jsnum" where
  "num i = Fin (of_int i)"

definition count :: "nat \<Rightarrow> jsnum" where
  "count n = Fin (of_nat n)"

subsection \<open>Strings\<close>

text \<open>
  Strings are lists of 8-bit characters, so the model covers the Latin-1 part of
  JavaScript's UTF-16 strings.
\<close>

fun startsWith :: "string \<Rightarrow> string \<Rightarrow> bool" where
  "startsWith _ [] = True"
| "startsWith [] (k # ks) = False"
| "startsWith (c # cs) (k # ks) = (c = k \<and> startsWith cs ks)"

fun str_includes :: "string \<Rightarrow> string \<Rightarrow> bool" where
  \<comment> \<open>\<open>String.prototype.includes\<close>\<close>
  "str_includes [] k = (k = [])"
| "str_includes (c # cs) k = (startsWith (c # cs) k \<or> str_includes cs k)"

definition lowerChar :: "char \<Rightarrow> char" where
  "lowerChar c =
     (let n = of_char c :: nat
      in if (65 \<le> n \<and> n \<le> 90) \<or> (192 \<le> n \<and> n \<le> 222 \<and> n \<noteq> 215)
         then char_of (n + 32) else c)"

definition toLowerCase :: "string \<Rightarrow> string" where
  "toLowerCase s = map lowerChar s"

definition upperChar :: "char \<Rightarrow> char" where
  \<comment> \<open>the letters whose upper case is again one Latin-1 character; any other character
      is returned as it is\<close>
  "upperChar c =
     (let n = of_char c :: nat
      in if (97 \<le> n \<and> n \<le> 122) \<or> (224 \<le> n \<and> n \<le> 254 \<and> n \<noteq> 247)
         then char_of (n - 32) else c)"

definition capitalize :: "string \<Rightarrow> string" where
  \<comment> \<open>\<open>action.charAt(0).toUpperCase() + action.slice(1)\<close>\<close>
  "capitalize s = (case s of [] \<Rightarrow> [] | c # cs \<Rightarrow> upperChar c # cs)"

subsection \<open>\<open>parseInt\<close> with one argument\<close>

definition isWhiteSpace :: "char \<Rightarrow> bool" where
  "isWhiteSpace c = (of_char c \<in> {9, 10, 11, 12, 13, 32, 160 :: nat})"

definition digitValue :: "char \<Rightarrow> nat option" where
  "digitValue c =
     (let n = of_char c :: nat
      in if 48 \<le> n \<and> n \<le> 57 then Some (n - 48)
         else if 97 \<le> n \<and> n \<le> 122 then Some (n - 87)
         else if 65 \<le> n \<and> n \<le> 90 then Some (n - 55)
         else None)"

definition isDigitIn :: "nat \<Rightarrow> char \<Rightarrow> bool" where
  "isDigitIn radix c = (case digitValue c of None \<Rightarrow> False | Some d \<Rightarrow> d < radix)"

definition digitsValue :: "nat \<Rightarrow> string \<Rightarrow> nat" where
  "digitsValue radix ds = foldl (\<lambda>acc c. acc * radix + (case digitValue c of None \<Rightarrow> 0 | Some d \<Rightarrow> d)) 0 ds"

definition parseInt :: "string \<Rightarrow> jsnum" where
  "parseInt s =
     (let s1 = dropWhile isWhiteSpace s;
          negative = startsWith s1 ''-'';
          s2 = (if startsWith s1 ''-'' \<or> startsWith s1 ''+'' then tl s1 else s1);
          hex = (startsWith s2 ''0x'' \<or> startsWith s2 ''0X'');
          radix = (if hex then 16 else 10);
          s3 = (if hex then drop 2 s2 else s2);
          ds = takeWhile (isDigitIn radix) s3
      in if ds = [] then NaN
         else if negative then num (- int (digitsValue radix ds))
         else num (int (digitsValue radix ds)))"

subsection \<open>Untyped values\<close>

text \<open>
  What the decision service sends back is untyped data. \<open>jsval\<close> is the part of
  JavaScript's values that JSON and property lookups produce. An object is an association
  list; a lookup takes the first binding of a key.
\<close>

datatype jsval =
    Undefined
  | Null
  | Bool bool
  | Num jsnum
  | Str string
  | Arr "jsval list"
  | Obj "(string \<times> jsval) list"

record js_error =
  err_reason :: "string option"
  err_message :: "string option"
  err_response :: jsval

definition Error :: "string \<Rightarrow> js_error" where
  \<comment> \<open>\<open>new Error(msg)\<close>, and the \<open>TypeError\<close> and \<open>SyntaxError\<close> the runtime throws\<close>
  "Error msg = \<lparr>err_reason = None, err_message = Some msg, err_response = Undefined\<rparr>"

definition truthy :: "jsval \<Rightarrow> bool" where
  "truthy v =
     (case v of Undefined \<Rightarrow> False | Null \<Rightarrow> False | Bool b \<Rightarrow> b
      | Num n \<Rightarrow> n \<noteq> Fin 0 \<and> n \<noteq> NaN | Str s \<Rightarrow> s \<noteq> [] | Arr _ \<Rightarrow> True | Obj _ \<Rightarrow> True)"

definition isString :: "jsval \<Rightarrow> bool" where
  \<comment> \<open>\<open>typeof v === 'string'\<close>\<close>
  "isString v = (case v of Str _ \<Rightarrow> True | _ \<Rightarrow> False)"

definition isNumber :: "jsval \<Rightarrow> bool" where
  \<comment> \<open>\<open>typeof v === 'number'\<close>\<close>
  "isNumber v = (case v of Num _ \<Rightarrow> True | _ \<Rightarrow> False)"

definition getProp :: "jsval \<Rightarrow> string \<Rightarrow> js_error + jsval" where
  \<comment> \<open>\<open>v.key\<close>, for the keys the code reads (\<open>choices\<close>, \<open>message\<close>, \<open>content\<close>, \<open>error\<close>,
      \<open>action\<close>, \<open>reasoning\<close>, \<open>itemId\<close>, \<open>confidence\<close>, \<open>data\<close>): none of them is a
      built-in property of an array, a string, a number or a boolean\<close>
  "getProp v key =
     (case v of
        Undefined \<Rightarrow> Inl (Error ''Cannot read properties of undefined'')
      | Null \<Rightarrow> Inl (Error ''Cannot read properties of null'')
      | Obj kvs \<Rightarrow> (case map_of kvs key of None \<Rightarrow> Inr Undefined | Some x \<Rightarrow> Inr x)
      | _ \<Rightarrow> Inr Undefined)"

definition getIndex0 :: "jsval \<Rightarrow> js_error + jsval" where
  \<comment> \<open>\<open>v[0]\<close>\<close>
  "getIndex0 v =
     (case v of
        Undefined \<Rightarrow> Inl (Error ''Cannot read properties of undefined'')
      | Null \<Rightarrow> Inl (Error ''Cannot read properties of null'')
      | Arr xs \<Rightarrow> (case xs of [] \<Rightarrow> Inr Undefined | x # _ \<Rightarrow> Inr x)
      | Str s \<Rightarrow> (case s of [] \<Rightarrow> Inr Undefined | c # _ \<Rightarrow> Inr (Str [c]))
      | Obj kvs \<Rightarrow> (case map_of kvs ''0'' of None \<Rightarrow> Inr Undefined | Some x \<Rightarrow> Inr x)
      | _ \<Rightarrow> Inr Undefined)"

definition optProp :: "jsval \<Rightarrow> string \<Rightarrow> jsval" where
  \<comment> \<open>\<open>v?.key\<close>: \<open>undefined\<close> when \<open>v\<close> is \<open>undefined\<close> or \<open>null\<close>, and no exception\<close>
  "optProp v key = (case getProp v key of Inl _ \<Rightarrow> Undefined | Inr x \<Rightarrow> x)"

text \<open>
  Exceptions are values: \<open>Inl\<close> is a thrown exception. A computation that calls an external
  service or sleeps also returns the list of these effects, in order. Console output is
  not modelled. \<open>ctl\<close> is how one iteration of a retry loop ends: with \<open>return\<close>, with
  \<open>break\<close>, or by falling through to the next iteration.
\<close>

datatype event = Call nat | Sleep nat

datatype 'a ctl = Return 'a | Break | Next

fun callsOf :: "event list \<Rightarrow> nat list" where
  "callsOf [] = []"
| "callsOf (Call k # es) = k # callsOf es"
| "callsOf (Sleep ms # es) = callsOf es"

fun sleepsOf :: "event list \<Rightarrow> nat list" where
  "sleepsOf [] = []"
| "sleepsOf (Call k # es) = sleepsOf es"
| "sleepsOf (Sleep ms # es) = ms # sleepsOf es"

definition try_catch :: "js_error + 'a \<Rightarrow> (js_error \<Rightarrow> js_error + 'a) \<Rightarrow> js_error + 'a" where
  \<comment> \<open>\<open>try { body } catch (error) { handler }\<close>\<close>
  "try_catch body handler = (case body of Inl error \<Rightarrow> handler error | Inr v \<Rightarrow> Inr v)"

definition try_catch_io ::
  "(js_error + 'a) \<times> event list \<Rightarrow> (js_error \<Rightarrow> (js_error + 'a) \<times> event list)
    \<Rightarrow> (js_error + 'a) \<times> event list" where
  \<comment> \<open>the same, keeping the effects of the body before those of the handler\<close>
  "try_catch_io body handler =
     (case fst body of
        Inl error \<Rightarrow> (fst (handler error), snd body @ snd (handler error))
      | Inr v \<Rightarrow> (Inr v, snd body))"

section \<open>Configuration and game data: \<open>src/config/index.ts\<close>, \<open>gameLogic/types.ts\<close>,
  \<open>blockchain/types.ts\<close>\<close>

record ItemData =
  item_id :: nat
  item_name :: string
  cost :: int
  item_strength :: int
  item_defense :: int

record Config =
  simulationMode :: bool
  behaviorSettings_maxRetries :: nat
  aiSettings_maxRetries :: nat
  itemShop :: "ItemData list"
  guardrails_maxConsecutiveLosses :: nat
  guardrails_minGoldForFight :: int

definition CONFIG :: "bool \<Rightarrow> Config" where
  \<comment> \<open>the fields of \<open>CONFIG\<close> the modelled code reads; \<open>simulationMode\<close> comes from the
      environment variable \<open>SIMULATION_MODE\<close>\<close>
  "CONFIG simulation =
     \<lparr>simulationMode = simulation,
      behaviorSettings_maxRetries = 3,
      aiSettings_maxRetries = 3,
      itemShop =
        [\<lparr>item_id = 0, item_name = ''Wooden Shield'', cost = 50, item_strength = 0, item_defense = 5\<rparr>,
         \<lparr>item_id = 1, item_name = ''Iron Sword'', cost = 100, item_strength = 10, item_defense = 0\<rparr>,
         \<lparr>item_id = 2, item_name = ''Steel Armor'', cost = 250, item_strength = 5, item_defense = 20\<rparr>],
      guardrails_maxConsecutiveLosses = 5,
      guardrails_minGoldForFight = 20\<rparr>"

record PlayerStats =
  name :: string
  level :: string
  experience :: string
  gold :: string
  strength :: string
  defense :: string
  exists :: bool

definition shopAt :: "ItemData list \<Rightarrow> jsnum \<Rightarrow> ItemData option" where
  \<comment> \<open>\<open>CONFIG.itemShop[i]\<close> for a number \<open>i\<close>: \<open>undefined\<close> unless \<open>i\<close> is an index of the array\<close>
  "shopAt shop i =
     (case i of
        Fin x \<Rightarrow> (if 0 \<le> x \<and> x = of_int \<lfloor>x\<rfloor> \<and> nat \<lfloor>x\<rfloor> < length shop
                   then Some (shop ! nat \<lfloor>x\<rfloor>) else None)
      | _ \<Rightarrow> None)"

section \<open>Outcome Predictor and Investment Analyzer: \<open>gameLogic/BattleIntelligence.js\<close>\<close>

text \<open>
  The contributing factors are messages with numbers interpolated; the model keeps the
  interpolated data and not the rendered text. A local variable of the source whose name
  is also the name of a field is renamed (\<open>strength\<close> to \<open>strengthN\<close>, \<open>riskLevel\<close> to
  \<open>risk\<close>, \<open>isOwned\<close> to \<open>owned\<close> and so on). The item id given to \<open>analyzeItemROI\<close> is an
  index taken from the catalog, a natural number.
\<close>

datatype Factor =
    StrongPowerScore jsnum
  | HistoricalWinRate jsnum
  | HotStreak nat
  | ColdStreak nat

record BattlePrediction =
  winProbability :: jsnum
  expectedGoldChange :: jsnum
  expectedXpChange :: jsnum
  riskLevel :: string
  recommendation :: string
  contributingFactors :: "Factor list"

record ItemROIAnalysis =
  roi_itemId :: nat
  roi_itemName :: string
  roi_cost :: int
  isOwned :: bool
  isAffordable :: bool
  expectedWinRateIncrease :: jsnum
  paybackBattles :: jsnum
  roiScore :: jsnum
  roi_recommendation :: string

definition predictBattleOutcome :: "PlayerStats \<Rightarrow> GameMemory \<Rightarrow> BattlePrediction" where
  "predictBattleOutcome stats memory =
     (let factors = [];
          winProb = Fin 0.5;
          strengthN = parseInt (strength stats);
          defenseN = parseInt (defense stats);
          powerScore = jadd strengthN defenseN;
          powerBonus = jmul (jsub powerScore (Fin 20)) (Fin 0.005);
          winProb = jadd winProb powerBonus;
          factors = (if jgt powerScore (Fin 30) then factors @ [StrongPowerScore powerScore]
                     else factors);
          totalBattlesN = battlesWon memory + battlesLost memory;
          (winProb, factors) =
            (if totalBattlesN > 5 then
               (let historicalWinRate = jdiv (count (battlesWon memory)) (count totalBattlesN);
                    historyBonus = jmul (jsub historicalWinRate (Fin 0.5)) (Fin 0.2)
                in (jadd winProb historyBonus, factors @ [HistoricalWinRate historicalWinRate]))
             else (winProb, factors));
          (winProb, factors) =
            (if consecutiveWins memory \<ge> 2
             then (jadd winProb (jmul (count (consecutiveWins memory)) (Fin 0.05)),
                   factors @ [HotStreak (consecutiveWins memory)])
             else (winProb, factors));
          (winProb, factors) =
            (if consecutiveLosses memory \<ge> 2
             then (jsub winProb (jmul (count (consecutiveLosses memory)) (Fin 0.07)),
                   factors @ [ColdStreak (consecutiveLosses memory)])
             else (winProb, factors));
          winProb = Math_max (Fin 0.05) (Math_min (Fin 0.95) winProb);
          risk = (if jgt winProb (Fin 0.7) then ''low''
                  else if jgt winProb (Fin 0.45) then ''medium'' else ''high'');
          recommend = (if risk = ''low'' then ''Favorable odds''
                       else if risk = ''medium'' then ''Calculated risk''
                       else ''High risk, not recommended'')
      in \<lparr>winProbability = winProb,
          expectedGoldChange = jsub (jmul winProb (Fin 40)) (jmul (jsub (Fin 1) winProb) (Fin 20)),
          expectedXpChange = jadd (jmul winProb (Fin 25)) (Fin 5),
          riskLevel = risk,
          recommendation = recommend,
          contributingFactors = factors\<rparr>)"

fun showNat :: "nat \<Rightarrow> string" where
  \<comment> \<open>the decimal text of an index, as string interpolation renders it\<close>
  "showNat n =
     (if n < 10 then [char_of (48 + n)] else showNat (n div 10) @ [char_of (48 + n mod 10)])"

definition analyzeItemROI ::
  "Config \<Rightarrow> nat \<Rightarrow> PlayerStats \<Rightarrow> GameMemory \<Rightarrow> js_error + ItemROIAnalysis" where
  "analyzeItemROI cfg itemId stats memory =
     (case (if itemId < length (itemShop cfg) then Some (itemShop cfg ! itemId) else None) of
        None \<Rightarrow> Inl (Error (''Item with ID '' @ showNat itemId @ '' not found in config.''))
      | Some item \<Rightarrow>
          (let owned = list_ex (\<lambda>p. purchased_id p = itemId) (itemsPurchased memory);
               affordable = jge (parseInt (gold stats)) (num (cost item));
               currentPower = jadd (parseInt (strength stats)) (parseInt (defense stats));
               newPower = jadd (jadd currentPower (num (item_strength item))) (num (item_defense item));
               powerIncrease = jsub (jdiv newPower currentPower) (Fin 1);
               expectedIncrease = jmul powerIncrease (Fin 0.5);
               avgGoldPerBattleIncrease = jmul expectedIncrease (Fin 60);
               payback = (if jgt avgGoldPerBattleIncrease (Fin 0)
                          then Math_ceil (jdiv (num (cost item)) avgGoldPerBattleIncrease)
                          else Fin 999);
               score = jmul (jdiv (jadd (num (item_strength item)) (num (item_defense item)))
                                  (num (cost item))) (Fin 100)
           in Inr \<lparr>roi_itemId = item_id item,
                   roi_itemName = item_name item,
                   roi_cost = cost item,
                   isOwned = owned,
                   isAffordable = affordable,
                   expectedWinRateIncrease = expectedIncrease,
                   paybackBattles = payback,
                   roiScore = score,
                   roi_recommendation =
                     (if jgt score (Fin 1) then ''High Value''
                      else if jgt score (Fin 0.5) then ''Good Value'' else ''Low Value'')\<rparr>))"

section \<open>Decision Oracle Adapter: \<open>features/ai/AIService.ts\<close>\<close>

text \<open>
  \<open>AIDecision\<close> is the interface of \<open>ai/types.ts\<close>. Its \<open>action\<close> field is kept as the
  string it is at run time (the record field is named \<open>decision_action\<close>, since
  \<open>ActionOutcome\<close> has an \<open>action\<close> field too); \<open>validActions\<close> are the six kinds the
  interface lists.
\<close>

record AIDecision =
  decision_action :: string
  itemId :: "jsnum option"
  reasoning :: string
  confidence :: jsval

definition validActions :: "string list" where
  "validActions = [''createPlayer'', ''train'', ''fightMonster'', ''buyItem'', ''levelUp'', ''wait'']"

definition asAIDecision :: "jsval \<Rightarrow> AIDecision" where
  \<comment> \<open>\<open>parsed as AIDecision\<close>: the same object, read through the interface\<close>
  "asAIDecision parsed =
     \<lparr>decision_action = (case optProp parsed ''action'' of Str a \<Rightarrow> a | _ \<Rightarrow> []),
      itemId = (case optProp parsed ''itemId'' of Num n \<Rightarrow> Some n | _ \<Rightarrow> None),
      reasoning = (case optProp parsed ''reasoning'' of Str r \<Rightarrow> r | _ \<Rightarrow> []),
      confidence = optProp parsed ''confidence''\<rparr>"

text \<open>
  \<open>JSON.parse\<close> and \<open>axios.post\<close> are library functions and are parameters of the model:
  \<open>JSON_parse\<close> maps the value it is given to the parsed value or throws, and \<open>post k prompt\<close>
  is what the \<open>k\<close>-th request of one \<open>getDecision\<close> call does: it throws, or resolves to a
  response whose \<open>data\<close> is the given value.
\<close>

definition parseAndValidateResponse ::
  "(jsval \<Rightarrow> js_error + jsval) \<Rightarrow> jsval \<Rightarrow> js_error + AIDecision option" where
  "parseAndValidateResponse JSON_parse rawResponse =
     try_catch
       (case JSON_parse rawResponse of
          Inl e \<Rightarrow> Inl e
        | Inr parsed \<Rightarrow>
           (case getProp parsed ''action'' of
              Inl e \<Rightarrow> Inl e
            | Inr a \<Rightarrow>
               if \<not> truthy a \<or> \<not> isString a then Inr None
               else
                (case getProp parsed ''reasoning'' of
                   Inl e \<Rightarrow> Inl e
                 | Inr r \<Rightarrow>
                    if \<not> truthy r \<or> \<not> isString r then Inr None
                    else
                     (case getProp parsed ''itemId'' of
                        Inl e \<Rightarrow> Inl e
                      | Inr i \<Rightarrow>
                         if i \<noteq> Undefined \<and> \<not> isNumber i then Inr None
                         else Inr (Some (asAIDecision parsed))))))
       (\<lambda>error. Inr None)"

definition fallbackDecision :: AIDecision where
  "fallbackDecision =
     \<lparr>decision_action = ''train'',
      itemId = None,
      reasoning = ''AI service failed to get a valid response after all retries. Executing a safe fallback action.'',
      confidence = Undefined\<rparr>"

definition decisionAttempt ::
  "(jsval \<Rightarrow> js_error + jsval) \<Rightarrow> (nat \<Rightarrow> string \<Rightarrow> js_error + jsval) \<Rightarrow> string \<Rightarrow> nat
    \<Rightarrow> (js_error + AIDecision ctl) \<times> event list" where
  \<comment> \<open>the body of the \<open>try\<close> block, lines 22-49\<close>
  "decisionAttempt JSON_parse post strategicPrompt attempt =
     ((case post attempt strategicPrompt of
         Inl e \<Rightarrow> Inl e
       | Inr data \<Rightarrow>
          (case getProp data ''choices'' of
             Inl e \<Rightarrow> Inl e
           | Inr choices \<Rightarrow>
              (case getIndex0 choices of
                 Inl e \<Rightarrow> Inl e
               | Inr choice \<Rightarrow>
                  (let aiResponseContent = optProp (optProp choice ''message'') ''content''
                   in if truthy aiResponseContent then
                        (case parseAndValidateResponse JSON_parse aiResponseContent of
                           Inl e \<Rightarrow> Inl e
                         | Inr parsedDecision \<Rightarrow>
                            (case parsedDecision of
                               Some d \<Rightarrow> Inr (Return d)
                             | None \<Rightarrow> Inr Next))
                      else Inr Next)))),
      [Call attempt])"

definition errorMessageOf :: "js_error \<Rightarrow> jsval" where
  \<comment> \<open>\<open>error.response?.data?.error?.message || error.message\<close>\<close>
  "errorMessageOf error =
     (let m = optProp (optProp (optProp (err_response error) ''data'') ''error'') ''message''
      in if truthy m then m
         else (case err_message error of None \<Rightarrow> Undefined | Some msg \<Rightarrow> Str msg))"

definition decisionCatch :: "Config \<Rightarrow> nat \<Rightarrow> js_error \<Rightarrow> (js_error + AIDecision ctl) \<times> event list" where
  \<comment> \<open>the \<open>catch\<close> block, lines 50-61; the error message is only printed\<close>
  "decisionCatch cfg attempt error =
     (let errorMessage = errorMessageOf error
      in if attempt = aiSettings_maxRetries cfg then (Inr Break, [])
         else (Inr Next, [Sleep (2000 * attempt)]))"

definition decisionStep ::
  "Config \<Rightarrow> (jsval \<Rightarrow> js_error + jsval) \<Rightarrow> (nat \<Rightarrow> string \<Rightarrow> js_error + jsval) \<Rightarrow> string \<Rightarrow> nat
    \<Rightarrow> (js_error + AIDecision ctl) \<times> event list" where
  \<comment> \<open>one iteration of the loop: the \<open>try\<close> statement\<close>
  "decisionStep cfg JSON_parse post strategicPrompt attempt =
     try_catch_io (decisionAttempt JSON_parse post strategicPrompt attempt)
                  (decisionCatch cfg attempt)"

function getDecision_from ::
  "Config \<Rightarrow> (jsval \<Rightarrow> js_error + jsval) \<Rightarrow> (nat \<Rightarrow> string \<Rightarrow> js_error + jsval) \<Rightarrow> string \<Rightarrow> nat
    \<Rightarrow> (js_error + AIDecision) \<times> event list" where
  "getDecision_from cfg JSON_parse post strategicPrompt attempt =
     (if attempt \<le> aiSettings_maxRetries cfg then
        (let step = decisionStep cfg JSON_parse post strategicPrompt attempt
         in case fst step of
              Inl e \<Rightarrow> (Inl e, snd step)
            | Inr (Return d) \<Rightarrow> (Inr d, snd step)
            | Inr Break \<Rightarrow> (Inr fallbackDecision, snd step)
            | Inr Next \<Rightarrow>
               (let rest = getDecision_from cfg JSON_parse post strategicPrompt (attempt + 1)
                in (fst rest, snd step @ snd rest)))
      else (Inr fallbackDecision, []))"
  by pat_completeness auto
termination
  by (relation "measure (\<lambda>(cfg, JSON_parse, post, strategicPrompt, attempt).
        Suc (aiSettings_maxRetries cfg) - attempt)") auto

declare getDecision_from.simps [simp del]

definition getDecision ::
  "Config \<Rightarrow> (jsval \<Rightarrow> js_error + jsval) \<Rightarrow> (nat \<Rightarrow> string \<Rightarrow> js_error + jsval) \<Rightarrow> string
    \<Rightarrow> (js_error + AIDecision) \<times> event list" where
  "getDecision cfg JSON_parse post strategicPrompt =
     getDecision_from cfg JSON_parse post strategicPrompt 1"

section \<open>Guardrail Validator: \<open>Core/BotEngine.ts\<close>\<close>

definition validateAIDecision :: "Config \<Rightarrow> AIDecision \<Rightarrow> PlayerStats \<Rightarrow> GameMemory \<Rightarrow> AIDecision" where
  "validateAIDecision cfg decision stats memory =
     (let goldN = parseInt (gold stats)
      in if decision_action decision = ''fightMonster''
            \<and> consecutiveLosses memory \<ge> guardrails_maxConsecutiveLosses cfg
         then \<lparr>decision_action = ''train'', itemId = None,
               reasoning = ''Forced training to break a losing streak (Safety Override).'',
               confidence = Undefined\<rparr>
         else if decision_action decision = ''fightMonster''
            \<and> jlt goldN (num (guardrails_minGoldForFight cfg))
         then \<lparr>decision_action = ''train'', itemId = None,
               reasoning = ''Gold is too low to risk a fight (Safety Override).'',
               confidence = Undefined\<rparr>
         else if decision_action decision = ''buyItem'' \<and> itemId decision \<noteq> None
            \<and> (case shopAt (itemShop cfg) (the (itemId decision)) of
                 None \<Rightarrow> False
               | Some item \<Rightarrow> jlt goldN (num (cost item)))
         then \<lparr>decision_action = ''train'', itemId = None,
               reasoning = ''Cannot afford the item, training instead (Safety Override).'',
               confidence = Undefined\<rparr>
         else decision)"

text \<open>
  The rule table of the design, in its words and its order; the first rule whose
  condition holds decides, and a decision no rule matches passes through.
\<close>

record guard_rule =
  rule_applies :: "AIDecision \<Rightarrow> PlayerStats \<Rightarrow> GameMemory \<Rightarrow> bool"
  rule_override :: AIDecision

definition trainOverride :: "string \<Rightarrow> AIDecision" where
  "trainOverride why = \<lparr>decision_action = ''train'', itemId = None, reasoning = why, confidence = Undefined\<rparr>"

definition referencedItem :: "Config \<Rightarrow> AIDecision \<Rightarrow> ItemData option" where
  \<comment> \<open>the catalog item a decision's item id refers to, if there is one\<close>
  "referencedItem cfg d = (case itemId d of None \<Rightarrow> None | Some i \<Rightarrow> shopAt (itemShop cfg) i)"

definition guardrail_rules_spec :: "Config \<Rightarrow> guard_rule list" where
  "guardrail_rules_spec cfg =
     [\<lparr>rule_applies = (\<lambda>d stats memory. decision_action d = ''fightMonster''
          \<and> consecutiveLosses memory \<ge> guardrails_maxConsecutiveLosses cfg),
       rule_override = trainOverride ''Forced training to break a losing streak (Safety Override).''\<rparr>,
      \<lparr>rule_applies = (\<lambda>d stats memory. decision_action d = ''fightMonster''
          \<and> jlt (parseInt (gold stats)) (num (guardrails_minGoldForFight cfg))),
       rule_override = trainOverride ''Gold is too low to risk a fight (Safety Override).''\<rparr>,
      \<lparr>rule_applies = (\<lambda>d stats memory. decision_action d = ''buyItem''
          \<and> (case referencedItem cfg d of
               None \<Rightarrow> False
             | Some item \<Rightarrow> jgt (num (cost item)) (parseInt (gold stats)))),
       rule_override = trainOverride ''Cannot afford the item, training instead (Safety Override).''\<rparr>]"

fun first_match :: "guard_rule list \<Rightarrow> AIDecision \<Rightarrow> PlayerStats \<Rightarrow> GameMemory \<Rightarrow> AIDecision" where
  "first_match [] d stats memory = d"
| "first_match (r # rs) d stats memory =
     (if rule_applies r d stats memory then rule_override r else first_match rs d stats memory)"

definition guardrail_spec :: "Config \<Rightarrow> AIDecision \<Rightarrow> PlayerStats \<Rightarrow> GameMemory \<Rightarrow> AIDecision" where
  "guardrail_spec cfg d stats memory = first_match (guardrail_rules_spec cfg) d stats memory"

section \<open>Action Executor: \<open>features/blockchain/BlockchainService.ts\<close>\<close>

text \<open>
  The contract and the provider are external. \<open>ledger k call\<close> is what the contract does at
  the \<open>k\<close>-th attempt of one \<open>executeTransaction\<close>: the call throws (\<open>Inl\<close>), or yields no
  transaction (\<open>Inr None\<close>, the optional call on a missing method), or yields a transaction
  whose \<open>wait()\<close> throws or resolves to a receipt or \<open>null\<close>. \<open>preFlight\<close> is the outcome of
  \<open>performPreFlightChecks\<close>. The wallet index only selects the contract instance.
\<close>

datatype contract_call = CreatePlayer string | Train | FightMonster | LevelUp | BuyItem jsnum

record TransactionReceipt =
  gasUsed :: nat

record TransactionOptions =
  playerName :: "string option"
  opt_itemId :: "jsnum option"

type_synonym tx = "js_error + TransactionReceipt option"

definition nonRetryableKeywords :: "string list" where
  "nonRetryableKeywords =
     [''insufficient funds'', ''nonce too low'', ''replacement fee too low'',
      ''already exists'', ''not enough gold'']"

definition isNonRetryableError :: "string \<Rightarrow> bool" where
  "isNonRetryableError errorMsg =
     (let lowerError = toLowerCase errorMsg
      in list_ex (\<lambda>keyword. str_includes lowerError keyword) nonRetryableKeywords)"

definition sendAction ::
  "(nat \<Rightarrow> contract_call \<Rightarrow> js_error + tx option) \<Rightarrow> string \<Rightarrow> TransactionOptions \<Rightarrow> nat
    \<Rightarrow> (js_error + tx option) \<times> event list" where
  \<comment> \<open>the \<open>switch\<close>, lines 70-89\<close>
  "sendAction ledger act options attempt =
     (if act = ''createPlayer'' then
        (ledger attempt (CreatePlayer (case playerName options of
                                         None \<Rightarrow> ''Adventurer''
                                       | Some n \<Rightarrow> if n = [] then ''Adventurer'' else n)),
         [Call attempt])
      else if act = ''train'' then (ledger attempt Train, [Call attempt])
      else if act = ''fightMonster'' then (ledger attempt FightMonster, [Call attempt])
      else if act = ''levelUp'' then (ledger attempt LevelUp, [Call attempt])
      else if act = ''buyItem'' then
        (case opt_itemId options of
           None \<Rightarrow> (Inl (Error ''itemId is required for buyItem''), [])
         | Some i \<Rightarrow> (ledger attempt (BuyItem i), [Call attempt]))
      else (Inl (Error (''Unknown action: '' @ act)), []))"

definition transactionAttempt ::
  "Config \<Rightarrow> (nat \<Rightarrow> contract_call \<Rightarrow> js_error + tx option) \<Rightarrow> string \<Rightarrow> TransactionOptions \<Rightarrow> nat
    \<Rightarrow> (js_error + TransactionReceipt option ctl) \<times> event list" where
  \<comment> \<open>the body of the \<open>try\<close> block, lines 63-98\<close>
  "transactionAttempt cfg ledger act options attempt =
     (if simulationMode cfg then (Inr (Return None), [Sleep 500])
      else
        (let sent = sendAction ledger act options attempt
         in (case fst sent of
               Inl e \<Rightarrow> Inl e
             | Inr None \<Rightarrow>
                 Inl (Error (''Transaction for '' @ capitalize act
                      @ '' could not be created. The method may not exist on the contract.''))
             | Inr (Some waited) \<Rightarrow>
                 (case waited of
                    Inl e \<Rightarrow> Inl e
                  | Inr receipt \<Rightarrow> Inr (Return receipt)),
             snd sent)))"

definition errorMsgOf :: "js_error \<Rightarrow> string" where
  \<comment> \<open>\<open>error.reason || error.message || 'Unknown transaction error'\<close>\<close>
  "errorMsgOf error =
     (case err_reason error of
        Some r \<Rightarrow> if r \<noteq> [] then r
                  else (case err_message error of
                          Some m \<Rightarrow> if m \<noteq> [] then m else ''Unknown transaction error''
                        | None \<Rightarrow> ''Unknown transaction error'')
      | None \<Rightarrow> (case err_message error of
                   Some m \<Rightarrow> if m \<noteq> [] then m else ''Unknown transaction error''
                 | None \<Rightarrow> ''Unknown transaction error''))"

definition transactionCatch ::
  "Config \<Rightarrow> string \<Rightarrow> nat \<Rightarrow> js_error \<Rightarrow> (js_error + TransactionReceipt option ctl) \<times> event list" where
  \<comment> \<open>the \<open>catch\<close> block, lines 100-112\<close>
  "transactionCatch cfg act attempt error =
     (let errorMsg = errorMsgOf error
      in if isNonRetryableError errorMsg
         then (Inl (Error (''Non-retryable error for '' @ capitalize act @ '': '' @ errorMsg)), [])
         else if attempt = behaviorSettings_maxRetries cfg
         then (Inl (Error (''Action '' @ capitalize act @ '' failed after all retries.'')), [])
         else (Inr Next, [Sleep (3000 * attempt)]))"

definition transactionStep ::
  "Config \<Rightarrow> (nat \<Rightarrow> contract_call \<Rightarrow> js_error + tx option) \<Rightarrow> string \<Rightarrow> TransactionOptions \<Rightarrow> nat
    \<Rightarrow> (js_error + TransactionReceipt option ctl) \<times> event list" where
  \<comment> \<open>one iteration of the loop: the \<open>try\<close> statement\<close>
  "transactionStep cfg ledger act options attempt =
     try_catch_io (transactionAttempt cfg ledger act options attempt)
                  (transactionCatch cfg act attempt)"

function executeTransaction_from ::
  "Config \<Rightarrow> (nat \<Rightarrow> contract_call \<Rightarrow> js_error + tx option) \<Rightarrow> string \<Rightarrow> TransactionOptions \<Rightarrow> nat
    \<Rightarrow> (js_error + TransactionReceipt option) \<times> event list" where
  "executeTransaction_from cfg ledger act options attempt =
     (if attempt \<le> behaviorSettings_maxRetries cfg then
        (let step = transactionStep cfg ledger act options attempt
         in case fst step of
              Inl e \<Rightarrow> (Inl e, snd step)
            | Inr (Return receipt) \<Rightarrow> (Inr receipt, snd step)
            | Inr Break \<Rightarrow> (Inr None, snd step)
            | Inr Next \<Rightarrow>
               (let rest = executeTransaction_from cfg ledger act options (attempt + 1)
                in (fst rest, snd step @ snd rest)))
      else (Inr None, []))"
  by pat_completeness auto
termination
  by (relation "measure (\<lambda>(cfg, ledger, act, options, attempt).
        Suc (behaviorSettings_maxRetries cfg) - attempt)") auto

declare executeTransaction_from.simps [simp del]

definition executeTransaction ::
  "Config \<Rightarrow> js_error + unit \<Rightarrow> (nat \<Rightarrow> contract_call \<Rightarrow> js_error + tx option) \<Rightarrow> string
    \<Rightarrow> TransactionOptions \<Rightarrow> (js_error + TransactionReceipt option) \<times> event list" where
  "executeTransaction cfg preFlight ledger act options =
     (case (if \<not> simulationMode cfg then preFlight else Inr ()) of
        Inl e \<Rightarrow> (Inl e, [])
      | Inr _ \<Rightarrow> executeTransaction_from cfg ledger act options 1)"

text \<open>
  What a run of the loop does when its attempts \<open>a, \<dots>, k - 1\<close> have each failed with an
  error that is retried: the effects of each attempt, each followed by its backoff sleep.
  \<open>failsRetryably\<close> says that an attempt ends in an exception that
  \<open>isNonRetryableError\<close> does not recognise.
\<close>

definition retryTrace ::
  "Config \<Rightarrow> (nat \<Rightarrow> contract_call \<Rightarrow> js_error + tx option) \<Rightarrow> string \<Rightarrow> TransactionOptions
    \<Rightarrow> nat \<Rightarrow> nat \<Rightarrow> event list" where
  "retryTrace cfg ledger act options a k =
     concat (map (\<lambda>j. snd (transactionAttempt cfg ledger act options j) @ [Sleep (3000 * j)])
                 [a..<k])"

definition failsRetryably ::
  "Config \<Rightarrow> (nat \<Rightarrow> contract_call \<Rightarrow> js_error + tx option) \<Rightarrow> string \<Rightarrow> TransactionOptions
    \<Rightarrow> nat \<Rightarrow> bool" where
  "failsRetryably cfg ledger act options j =
     (case fst (transactionAttempt cfg ledger act options j) of
        Inl e \<Rightarrow> \<not> isNonRetryableError (errorMsgOf e)
      | Inr _ \<Rightarrow> False)"

section \<open>Inputs used in the examples\<close>

definition parsesTo :: "string \<Rightarrow> jsval \<Rightarrow> jsval \<Rightarrow> js_error + jsval" where
  \<comment> \<open>\<open>JSON.parse\<close> restricted to one document: the given text parses to the given value,
      anything else is a syntax error\<close>
  "parsesTo text v x = (if x = Str text then Inr v else Inl (Error ''Unexpected token''))"

definition chatReply :: "jsval \<Rightarrow> jsval" where
  \<comment> \<open>a chat-completion response body with one choice of the given content\<close>
  "chatReply content = Obj [(''choices'', Arr [Obj [(''message'', Obj [(''content'', content)])]])]"

definition timeoutError :: js_error where
  "timeoutError = Error ''timeout of 30000ms exceeded''"

definition zeroMemory :: GameMemory where
  "zeroMemory = fst (initializeMemory emptyHeap)"

section \<open>Properties of the Memory Store\<close>

lemma recentOf_updateMemory:
  "recentOf (updateMemory h m outcome) = slice_neg 30 (arrays h (recentActions m) @ [outcome])"
  by (simp add: updateMemory_def trimRecent_def push_def alloc_def recentOf_def slice_neg_def
      battleStats_def goldStats_def Let_def)

lemma slice_neg_idem_snoc:
  "slice_neg 30 (slice_neg 30 xs @ [x]) = slice_neg 30 (xs @ [x])"
proof -
  have "length xs - (length xs - 30 + 29) + (length xs - 30) = length xs - 29" by arith
  then show ?thesis by (simp add: slice_neg_def)
qed

lemma length_slice_neg: "length (slice_neg k xs) \<le> k"
  by (simp add: slice_neg_def)

lemma updateAll_snoc:
  "updateAll s (outcomes @ [outcome]) =
     updateMemory (snd (updateAll s outcomes)) (fst (updateAll s outcomes)) outcome"
  by (simp add: updateAll_def split_beta)

lemma recentOf_initializeMemory: "recentOf (initializeMemory h) = []"
  by (simp add: initializeMemory_def alloc_def recentOf_def)

lemma recentOf_updateAll:
  "length (recentOf s) \<le> 30 \<Longrightarrow>
   recentOf (updateAll s outcomes) = slice_neg 30 (recentOf s @ outcomes)"
proof (induction outcomes rule: rev_induct)
  case Nil
  then show ?case by (simp add: updateAll_def slice_neg_def)
next
  case (snoc x xs)
  have "recentOf (updateAll s (xs @ [x])) = slice_neg 30 (recentOf (updateAll s xs) @ [x])"
    unfolding updateAll_snoc recentOf_updateMemory by (simp add: recentOf_def)
  also have "\<dots> = slice_neg 30 (slice_neg 30 (recentOf s @ xs) @ [x])"
    using snoc by simp
  also have "\<dots> = slice_neg 30 ((recentOf s @ xs) @ [x])"
    by (rule slice_neg_idem_snoc)
  finally show ?case by simp
qed

text \<open>
  C7. Whatever the memory given to it, \<open>updateMemory\<close> returns a memory whose
  \<open>recentActions\<close> array has at most 30 entries (so in particular when the input had at
  most 30). After any sequence of updates from the zero state, each applied to the memory
  the previous one returned, the array is the sequence of outcomes without all but its
  last 30, in the order of application: the oldest entries are the ones dropped.
\<close>

theorem recentActions_bounded_fifo:
  "length (recentOf (updateMemory h m outcome)) \<le> 30 \<and>
   recentOf (updateAll (initializeMemory h) outcomes) = drop (length outcomes - 30) outcomes \<and>
   length (recentOf (updateAll (initializeMemory h) outcomes)) \<le> 30"
proof -
  have a: "length (recentOf (updateMemory h m outcome)) \<le> 30"
    unfolding recentOf_updateMemory by (rule length_slice_neg)
  have b: "recentOf (updateAll (initializeMemory h) outcomes) = slice_neg 30 outcomes"
    using recentOf_updateAll [of "initializeMemory h" outcomes]
    by (simp add: recentOf_initializeMemory)
  from a b show ?thesis by (simp add: slice_neg_def)
qed

theorem recentActions_bounded_fifo_witness:
  "recentOf (updateAll (initializeMemory emptyHeap)
      (map (\<lambda>k. \<lparr>action = ''train'', success = True, goldChange = 15, expChange = 10,
                  timestamp = k, details = None\<rparr>) [0..<1000]))
   = map (\<lambda>k. \<lparr>action = ''train'', success = True, goldChange = 15, expChange = 10,
                timestamp = k, details = None\<rparr>) [970..<1000]"
  using recentActions_bounded_fifo [of emptyHeap "fst (initializeMemory emptyHeap)"
      "\<lparr>action = ''train'', success = True, goldChange = 15, expChange = 10,
        timestamp = 0, details = None\<rparr>"
      "map (\<lambda>k. \<lparr>action = ''train'', success = True, goldChange = 15, expChange = 10,
                  timestamp = k, details = None\<rparr>) [0..<1000]"]
  by (simp add: drop_map)

subsection \<open>Streak counters\<close>

lemma counters_updateMemory:
  "consecutiveWins (fst (updateMemory h m outcome)) =
     (if action outcome = ''fightMonster''
      then (if success outcome then consecutiveWins m + 1 else 0) else consecutiveWins m)"
  "consecutiveLosses (fst (updateMemory h m outcome)) =
     (if action outcome = ''fightMonster''
      then (if success outcome then 0 else consecutiveLosses m + 1) else consecutiveLosses m)"
  "bestWinStreak (fst (updateMemory h m outcome)) =
     (if action outcome = ''fightMonster'' \<and> success outcome
      then max (bestWinStreak m) (consecutiveWins m + 1) else bestWinStreak m)"
  by (simp_all add: updateMemory_def trimRecent_def push_def alloc_def battleStats_def
      goldStats_def Let_def split_beta)

lemma counters_initializeMemory:
  "consecutiveWins (fst (initializeMemory h)) = 0"
  "consecutiveLosses (fst (initializeMemory h)) = 0"
  "bestWinStreak (fst (initializeMemory h)) = 0"
  by (simp_all add: initializeMemory_def alloc_def)

lemma bestWinStreak_step:
  "consecutiveWins m \<le> bestWinStreak m \<Longrightarrow>
   bestWinStreak (fst (updateMemory h m outcome)) =
     max (bestWinStreak m) (consecutiveWins (fst (updateMemory h m outcome)))"
  by (simp add: counters_updateMemory)

text \<open>
  Over a run from the zero state, \<open>bestWinStreak\<close> is the largest value \<open>consecutiveWins\<close>
  has had after any prefix of the run.
\<close>

lemma bestWinStreak_historical_max:
  "bestWinStreak (fst (updateAll (initializeMemory h) outcomes)) =
     Max (winsAfter h outcomes ` {..length outcomes})"
proof (induction outcomes rule: rev_induct)
  case Nil
  then show ?case by (simp add: winsAfter_def updateAll_def counters_initializeMemory)
next
  case (snoc x xs)
  let ?s = "updateAll (initializeMemory h) xs"
  let ?s' = "updateAll (initializeMemory h) (xs @ [x])"
  have img: "winsAfter h (xs @ [x]) ` {..length xs} = winsAfter h xs ` {..length xs}"
    by (rule image_cong) (simp_all add: winsAfter_def)
  have last: "winsAfter h (xs @ [x]) (Suc (length xs)) = consecutiveWins (fst ?s')"
    by (simp add: winsAfter_def)
  have cur: "winsAfter h xs (length xs) = consecutiveWins (fst ?s)"
    by (simp add: winsAfter_def)
  have "consecutiveWins (fst ?s) \<le> Max (winsAfter h xs ` {..length xs})"
    unfolding cur [symmetric] by (rule Max_ge) simp_all
  then have inv: "consecutiveWins (fst ?s) \<le> bestWinStreak (fst ?s)"
    using snoc by simp
  have "bestWinStreak (fst ?s') = max (bestWinStreak (fst ?s)) (consecutiveWins (fst ?s'))"
    unfolding updateAll_snoc by (rule bestWinStreak_step [OF inv])
  also have "\<dots> = max (Max (winsAfter h xs ` {..length xs})) (consecutiveWins (fst ?s'))"
    using snoc by simp
  also have "\<dots> = Max (insert (consecutiveWins (fst ?s')) (winsAfter h xs ` {..length xs}))"
    by (simp add: max.commute)
  also have "\<dots> = Max (winsAfter h (xs @ [x]) ` {..length (xs @ [x])})"
    by (simp add: atMost_Suc img last)
  finally show ?case .
qed

text \<open>
  C6. Let a memory have at most one of \<open>consecutiveWins\<close>, \<open>consecutiveLosses\<close> non-zero and
  \<open>bestWinStreak\<close> at least \<open>consecutiveWins\<close>. After \<open>updateMemory\<close> with any outcome, again
  at most one of the two counters is non-zero and \<open>bestWinStreak\<close> is at least
  \<open>consecutiveWins\<close>; \<open>bestWinStreak\<close> has not decreased and is the larger of its old value
  and the new \<open>consecutiveWins\<close>; a counter that has grown has left the other one at 0.
  Over a run from the zero state, \<open>bestWinStreak\<close> is therefore the largest value
  \<open>consecutiveWins\<close> has had so far.
\<close>

theorem streak_invariants_preserved:
  "((consecutiveWins m = 0 \<or> consecutiveLosses m = 0) \<and> consecutiveWins m \<le> bestWinStreak m \<longrightarrow>
     (consecutiveWins (fst (updateMemory h m outcome)) = 0 \<or>
        consecutiveLosses (fst (updateMemory h m outcome)) = 0) \<and>
     consecutiveWins (fst (updateMemory h m outcome)) \<le> bestWinStreak (fst (updateMemory h m outcome)) \<and>
     bestWinStreak m \<le> bestWinStreak (fst (updateMemory h m outcome)) \<and>
     bestWinStreak (fst (updateMemory h m outcome)) =
        max (bestWinStreak m) (consecutiveWins (fst (updateMemory h m outcome))) \<and>
     (consecutiveWins m < consecutiveWins (fst (updateMemory h m outcome)) \<longrightarrow>
        consecutiveLosses (fst (updateMemory h m outcome)) = 0) \<and>
     (consecutiveLosses m < consecutiveLosses (fst (updateMemory h m outcome)) \<longrightarrow>
        consecutiveWins (fst (updateMemory h m outcome)) = 0)) \<and>
   bestWinStreak (fst (updateAll (initializeMemory h) outcomes)) =
     Max (winsAfter h outcomes ` {..length outcomes})"
  using bestWinStreak_historical_max [of h outcomes]
  by (auto simp add: counters_updateMemory)

theorem streak_invariants_preserved_witness:
  "((consecutiveWins
        \<lparr>totalActions = 9, totalBattles = 5, battlesWon = 4, battlesLost = 1,
         goldEarned = 160, goldSpent = 20, itemsPurchased = [], recentActions = 0,
         consecutiveWins = 3, consecutiveLosses = 0, bestWinStreak = 3\<rparr> = 0
      \<or> consecutiveLosses
        \<lparr>totalActions = 9, totalBattles = 5, battlesWon = 4, battlesLost = 1,
         goldEarned = 160, goldSpent = 20, itemsPurchased = [], recentActions = 0,
         consecutiveWins = 3, consecutiveLosses = 0, bestWinStreak = 3\<rparr> = 0)
    \<and> consecutiveWins
        \<lparr>totalActions = 9, totalBattles = 5, battlesWon = 4, battlesLost = 1,
         goldEarned = 160, goldSpent = 20, itemsPurchased = [], recentActions = 0,
         consecutiveWins = 3, consecutiveLosses = 0, bestWinStreak = 3\<rparr>
      \<le> bestWinStreak
        \<lparr>totalActions = 9, totalBattles = 5, battlesWon = 4, battlesLost = 1,
         goldEarned = 160, goldSpent = 20, itemsPurchased = [], recentActions = 0,
         consecutiveWins = 3, consecutiveLosses = 0, bestWinStreak = 3\<rparr>)
   \<and> consecutiveLosses (fst (updateMemory emptyHeap
        \<lparr>totalActions = 9, totalBattles = 5, battlesWon = 4, battlesLost = 1,
         goldEarned = 160, goldSpent = 20, itemsPurchased = [], recentActions = 0,
         consecutiveWins = 3, consecutiveLosses = 0, bestWinStreak = 3\<rparr>
        \<lparr>action = ''fightMonster'', success = True, goldChange = 40, expChange = 25,
         timestamp = 1, details = None\<rparr>)) = 0
   \<and> bestWinStreak (fst (updateMemory emptyHeap
        \<lparr>totalActions = 9, totalBattles = 5, battlesWon = 4, battlesLost = 1,
         goldEarned = 160, goldSpent = 20, itemsPurchased = [], recentActions = 0,
         consecutiveWins = 3, consecutiveLosses = 0, bestWinStreak = 3\<rparr>
        \<lparr>action = ''fightMonster'', success = True, goldChange = 40, expChange = 25,
         timestamp = 1, details = None\<rparr>)) = 4"
  using streak_invariants_preserved [of
      "\<lparr>totalActions = 9, totalBattles = 5, battlesWon = 4, battlesLost = 1,
         goldEarned = 160, goldSpent = 20, itemsPurchased = [], recentActions = 0,
         consecutiveWins = 3, consecutiveLosses = 0, bestWinStreak = 3\<rparr>"
      emptyHeap
      "\<lparr>action = ''fightMonster'', success = True, goldChange = 40, expChange = 25,
         timestamp = 1, details = None\<rparr>" "[]"]
  by (simp add: counters_updateMemory)

subsection \<open>The input memory's array\<close>

text \<open>
  The copy \<open>{ ...currentMemory }\<close> is shallow: \<open>newMemory.recentActions\<close> and
  \<open>currentMemory.recentActions\<close> are the same array, and \<open>push\<close> appends to it in place.
  Every field of the input memory object keeps its value, but the array its
  \<open>recentActions\<close> field refers to has grown by the outcome.
\<close>

lemma updateMemory_pushes_onto_input:
  "recentActions m < fresh h \<Longrightarrow>
   arrays (snd (updateMemory h m outcome)) (recentActions m) = arrays h (recentActions m) @ [outcome]"
  by (simp add: updateMemory_def trimRecent_def push_def alloc_def Let_def split_beta)

text \<open>
  C2. The claim is that \<open>updateMemory\<close> leaves the input memory and its \<open>recentActions\<close> list
  unchanged. On the zero state and one \<open>train\<close> outcome, the array of the input memory is
  empty before the call and holds the outcome after it.
\<close>

theorem updateMemory_mutates_input:
  "recentOf (initializeMemory emptyHeap) = [] \<and>
   arrays
     (snd (updateMemory (snd (initializeMemory emptyHeap)) (fst (initializeMemory emptyHeap))
        \<lparr>action = ''train'', success = True, goldChange = 15, expChange = 10,
         timestamp = 0, details = None\<rparr>))
     (recentActions (fst (initializeMemory emptyHeap)))
   = [\<lparr>action = ''train'', success = True, goldChange = 15, expChange = 10,
        timestamp = 0, details = None\<rparr>]"
  by (simp add: updateMemory_def trimRecent_def push_def alloc_def initializeMemory_def
      emptyHeap_def recentOf_def Let_def split_beta)

section \<open>Properties of the Guardrail Validator\<close>

lemma shopAt_Some_iff:
  "shopAt shop i = Some item \<longleftrightarrow> (\<exists>n < length shop. i = Fin (of_nat n) \<and> item = shop ! n)"
proof
  assume "shopAt shop i = Some item"
  then obtain x where x: "i = Fin x" "0 \<le> x" "x = of_int \<lfloor>x\<rfloor>" "nat \<lfloor>x\<rfloor> < length shop"
      "item = shop ! nat \<lfloor>x\<rfloor>"
    by (auto simp: shopAt_def split: jsnum.splits if_splits)
  from x(2,3) have "x = of_nat (nat \<lfloor>x\<rfloor>)"
    by (metis of_int_of_nat_eq of_nat_nat zero_le_floor)
  with x show "\<exists>n < length shop. i = Fin (of_nat n) \<and> item = shop ! n" by blast
next
  assume "\<exists>n < length shop. i = Fin (of_nat n) \<and> item = shop ! n"
  then show "shopAt shop i = Some item" by (auto simp: shopAt_def)
qed

text \<open>
  C5. \<open>validateAIDecision\<close> is a function of the decision, the stats and the memory with no
  failing branch, and it computes what the rule table says: the first of the three rules
  whose condition holds replaces the decision by a \<open>train\<close> decision, and a decision that
  matches none is returned as it is. Rule 3 applies when the decision's item id refers to
  a catalog item whose cost exceeds the gold.
\<close>

theorem guardrail_first_match:
  "validateAIDecision cfg d stats memory = guardrail_spec cfg d stats memory"
  by (simp add: validateAIDecision_def guardrail_spec_def guardrail_rules_spec_def
      trainOverride_def referencedItem_def jgt_def Let_def split: option.splits)

theorem guardrail_first_match_witness:
  "validateAIDecision (CONFIG False)
      \<lparr>decision_action = ''fightMonster'', itemId = None, reasoning = ''glory'', confidence = Undefined\<rparr>
      \<lparr>name = ''Alex'', level = ''3'', experience = ''40'', gold = ''500'', strength = ''30'',
       defense = ''30'', exists = True\<rparr>
      (zeroMemory\<lparr>consecutiveLosses := 5\<rparr>)
   = trainOverride ''Forced training to break a losing streak (Safety Override).''"
  using guardrail_first_match [of "CONFIG False"
      "\<lparr>decision_action = ''fightMonster'', itemId = None, reasoning = ''glory'', confidence = Undefined\<rparr>"
      "\<lparr>name = ''Alex'', level = ''3'', experience = ''40'', gold = ''500'', strength = ''30'',
        defense = ''30'', exists = True\<rparr>"
      "zeroMemory\<lparr>consecutiveLosses := 5\<rparr>"]
  by (simp add: guardrail_spec_def guardrail_rules_spec_def CONFIG_def)

text \<open>The two guardrail examples of the design, for any stats and memory.\<close>

lemma loss_streak_forces_train:
  "decision_action d = ''fightMonster'' \<Longrightarrow>
   guardrails_maxConsecutiveLosses cfg \<le> consecutiveLosses memory \<Longrightarrow>
   decision_action (validateAIDecision cfg d stats memory) = ''train''"
  by (simp add: validateAIDecision_def Let_def)

lemma unaffordable_steel_armor_forces_train:
  "decision_action d = ''buyItem'' \<Longrightarrow> itemId d = Some (Fin 2) \<Longrightarrow> gold stats = ''100'' \<Longrightarrow>
   decision_action (validateAIDecision (CONFIG sim) d stats memory) = ''train''"
proof -
  have g: "parseInt ''100'' = Fin 100" by code_simp
  assume "decision_action d = ''buyItem''" "itemId d = Some (Fin 2)" "gold stats = ''100''"
  then show ?thesis
    by (simp add: validateAIDecision_def Let_def g shopAt_def CONFIG_def num_def)
qed

text \<open>
  C10. A \<open>buyItem\<close> decision with no item id, or with an item id that is not an index of the
  catalog, comes back unchanged, whatever the stats (so whatever the gold) and the memory.
\<close>

theorem buyItem_without_catalog_item_unchanged:
  "decision_action d = ''buyItem'' \<Longrightarrow>
   itemId d = None \<or> (\<exists>i. itemId d = Some i \<and> shopAt (itemShop cfg) i = None) \<Longrightarrow>
   validateAIDecision cfg d stats memory = d"
  by (auto simp add: validateAIDecision_def Let_def)

theorem buyItem_without_catalog_item_unchanged_witness:
  "shopAt (itemShop (CONFIG False)) (Fin 7) = None \<and>
   validateAIDecision (CONFIG False)
      \<lparr>decision_action = ''buyItem'', itemId = Some (Fin 7), reasoning = ''shiny'', confidence = Undefined\<rparr>
      \<lparr>name = ''Alex'', level = ''1'', experience = ''0'', gold = ''0'', strength = ''10'',
       defense = ''10'', exists = True\<rparr>
      zeroMemory
   = \<lparr>decision_action = ''buyItem'', itemId = Some (Fin 7), reasoning = ''shiny'', confidence = Undefined\<rparr>"
proof -
  have none: "shopAt (itemShop (CONFIG False)) (Fin 7) = None"
    by (simp add: shopAt_def CONFIG_def)
  show ?thesis
    using none buyItem_without_catalog_item_unchanged [of
      "\<lparr>decision_action = ''buyItem'', itemId = Some (Fin 7), reasoning = ''shiny'', confidence = Undefined\<rparr>"
      "CONFIG False"
      "\<lparr>name = ''Alex'', level = ''1'', experience = ''0'', gold = ''0'', strength = ''10'',
        defense = ''10'', exists = True\<rparr>"
      zeroMemory]
    by simp
qed

section \<open>Properties of the Outcome Predictor and the Investment Analyzer\<close>

lemma parseInt_cases: "parseInt s = NaN \<or> (\<exists>i. parseInt s = num i)"
  unfolding parseInt_def Let_def by metis

lemma decimal_digit_facts:
  assumes "isDigitIn 10 c"
  shows "\<not> isWhiteSpace c" and "c \<noteq> CHR ''-''" and "c \<noteq> CHR ''+''"
    and "c \<noteq> CHR ''x''" and "c \<noteq> CHR ''X''"
  using assms
  by (auto simp add: isDigitIn_def digitValue_def isWhiteSpace_def Let_def split: if_splits)

text \<open>
  The stats come from the contract as the decimal texts of unsigned integers, and
  \<open>parseInt\<close> reads such a text as the number it denotes.
\<close>

lemma parseInt_decimal:
  assumes "s \<noteq> []" and "\<forall>c \<in> set s. isDigitIn 10 c"
  shows "parseInt s = count (digitsValue 10 s)"
proof -
  from assms obtain c cs where s: "s = c # cs" by (cases s) auto
  with assms(2) have c: "isDigitIn 10 c" by simp
  have ws: "dropWhile isWhiteSpace s = s"
    using decimal_digit_facts(1) [OF c] by (simp add: s)
  have sign: "\<not> startsWith s ''-''" "\<not> startsWith s ''+''"
    using decimal_digit_facts(2,3) [OF c] by (simp_all add: s)
  have hex: "\<not> startsWith s ''0x''" "\<not> startsWith s ''0X''"
  proof -
    show "\<not> startsWith s ''0x''"
    proof (cases cs)
      case Nil
      then show ?thesis by (simp add: s)
    next
      case (Cons x xs)
      with assms(2) s have "isDigitIn 10 x" by simp
      from decimal_digit_facts(4) [OF this] show ?thesis by (simp add: s Cons)
    qed
    show "\<not> startsWith s ''0X''"
    proof (cases cs)
      case Nil
      then show ?thesis by (simp add: s)
    next
      case (Cons x xs)
      with assms(2) s have "isDigitIn 10 x" by simp
      from decimal_digit_facts(5) [OF this] show ?thesis by (simp add: s Cons)
    qed
  qed
  have tw: "takeWhile (isDigitIn 10) s = s"
    using assms(2) by (simp add: takeWhile_eq_all_conv)
  show ?thesis
    using assms(1) by (simp add: parseInt_def Let_def ws sign hex tw num_def count_def)
qed

lemma clamp_Fin:
  "Math_max (Fin 0.05) (Math_min (Fin 0.95) (Fin x)) = Fin (max 0.05 (min 0.95 x))"
  by (simp add: Math_max_def Math_min_def)

text \<open>
  C8. When the strength and the defense of the stats are texts that \<open>parseInt\<close> reads as
  numbers (as the decimal texts of the contract's non-negative integers are), the win
  probability is a finite number between 0.05 and 0.95, for every memory.
\<close>

theorem winProbability_clamped:
  assumes "parseInt (strength stats) \<noteq> NaN" and "parseInt (defense stats) \<noteq> NaN"
  shows "\<exists>p. winProbability (predictBattleOutcome stats memory) = Fin p \<and> 0.05 \<le> p \<and> p \<le> 0.95"
proof -
  from assms obtain s d where sd: "parseInt (strength stats) = Fin s" "parseInt (defense stats) = Fin d"
    using parseInt_cases unfolding num_def by metis
  have "\<exists>x. winProbability (predictBattleOutcome stats memory)
          = Math_max (Fin 0.05) (Math_min (Fin 0.95) (Fin x))"
    by (auto simp add: predictBattleOutcome_def Let_def sd jsub_def count_def split_beta)
  then obtain x where "winProbability (predictBattleOutcome stats memory) = Fin (max 0.05 (min 0.95 x))"
    unfolding clamp_Fin by blast
  moreover have "(0.05::real) \<le> max 0.05 (min 0.95 x)" and "max 0.05 (min 0.95 x) \<le> (0.95::real)"
    by (simp_all add: max_def min_def)
  ultimately show ?thesis by blast
qed

theorem winProbability_clamped_witness:
  "parseInt ''90'' \<noteq> NaN \<and> parseInt ''85'' \<noteq> NaN \<and>
   (\<exists>p. winProbability (predictBattleOutcome
       \<lparr>name = ''Morgan'', level = ''9'', experience = ''700'', gold = ''900'', strength = ''90'',
        defense = ''85'', exists = True\<rparr>
       (zeroMemory\<lparr>battlesWon := 40, battlesLost := 2, consecutiveWins := 12\<rparr>)) = Fin p
     \<and> 0.05 \<le> p \<and> p \<le> 0.95)"
proof -
  have a: "parseInt ''90'' \<noteq> NaN" by code_simp
  have b: "parseInt ''85'' \<noteq> NaN" by code_simp
  show ?thesis
    using a b winProbability_clamped [of
      "\<lparr>name = ''Morgan'', level = ''9'', experience = ''700'', gold = ''900'', strength = ''90'',
        defense = ''85'', exists = True\<rparr>"
      "zeroMemory\<lparr>battlesWon := 40, battlesLost := 2, consecutiveWins := 12\<rparr>"]
    by simp
qed

text \<open>The design's example: strength 15, defense 15 and no history give 0.55 and medium risk.\<close>

lemma predict_15_15:
  "winProbability (predictBattleOutcome
     \<lparr>name = ''Alex'', level = ''1'', experience = ''0'', gold = ''0'', strength = ''15'',
      defense = ''15'', exists = True\<rparr> zeroMemory) = Fin 0.55
   \<and> riskLevel (predictBattleOutcome
     \<lparr>name = ''Alex'', level = ''1'', experience = ''0'', gold = ''0'', strength = ''15'',
      defense = ''15'', exists = True\<rparr> zeroMemory) = ''medium''"
proof -
  have p: "parseInt ''15'' = Fin 15" by code_simp
  show ?thesis
    by (simp add: predictBattleOutcome_def Let_def p zeroMemory_def initializeMemory_def alloc_def
        jsub_def jgt_def Math_max_def Math_min_def)
qed

text \<open>
  With a current power of 0 the quotient \<open>newPower / currentPower\<close> is a division by zero:
  an infinity or \<open>NaN\<close>, and so is the expected win-rate increase. No branch of
  \<open>analyzeItemROI\<close> tests \<open>currentPower\<close>.
\<close>

lemma analyzeItemROI_zero_power:
  assumes "i < length (itemShop cfg)"
    and "jadd (parseInt (strength stats)) (parseInt (defense stats)) = Fin 0"
  shows "\<exists>r. analyzeItemROI cfg i stats memory = Inr r
           \<and> expectedWinRateIncrease r \<in> {PInf, NInf, NaN}"
  using assms by (simp add: analyzeItemROI_def Let_def num_def jsub_def)

text \<open>
  C3. The claim is that a current power of 0 is treated as a zero increase, so that
  \<open>expectedWinRateIncrease\<close> is 0. For the Iron Sword (item 1) and a player with strength 0
  and defense 0 the report has an infinite \<open>expectedWinRateIncrease\<close> and 0 payback
  battles.
\<close>

theorem analyzeItemROI_divides_by_zero:
  "map_sum id (\<lambda>r. (expectedWinRateIncrease r, paybackBattles r))
     (analyzeItemROI (CONFIG False) 1
        \<lparr>name = ''Alex'', level = ''1'', experience = ''0'', gold = ''100'', strength = ''0'',
         defense = ''0'', exists = True\<rparr>
        zeroMemory)
   = Inr (PInf, Fin 0)"
  by code_simp

section \<open>Properties of the Decision Oracle Adapter\<close>

subsection \<open>\<open>parseAndValidateResponse\<close>\<close>

lemma parseAndValidateResponse_never_throws:
  "\<exists>r. parseAndValidateResponse JSON_parse rawResponse = Inr r"
  by (auto simp add: parseAndValidateResponse_def try_catch_def split: sum.splits)

text \<open>
  C4, as claimed: an accepted reply gives a decision whose action is one of the six
  kinds and whose item id is present only for \<open>buyItem\<close>. The reply below is accepted, its
  action is none of the six kinds and it carries an item id without being a \<open>buyItem\<close>.
\<close>

theorem accepted_reply_counterexample:
  \<open>parseAndValidateResponse
     (parsesTo ''{"action":"dance","itemId":1,"reasoning":"why not"}''
        (Obj [(''action'', Str ''dance''), (''itemId'', Num (Fin 1)), (''reasoning'', Str ''why not'')]))
     (Str ''{"action":"dance","itemId":1,"reasoning":"why not"}'')
   = Inr (Some \<lparr>decision_action = ''dance'', itemId = Some (Fin 1), reasoning = ''why not'',
                 confidence = Undefined\<rparr>)
   \<and> ''dance'' \<notin> set validActions
   \<and> ''dance'' \<noteq> ''buyItem''\<close>
  by (simp add: parseAndValidateResponse_def parsesTo_def try_catch_def getProp_def truthy_def
      isString_def isNumber_def asAIDecision_def optProp_def validActions_def)

text \<open>
  C4, amended. What the step checks: an accepted reply parses to a value whose \<open>action\<close> is a
  non-empty string and whose \<open>reasoning\<close> is a non-empty string, and these are the
  decision's action and rationale; its \<open>itemId\<close> is absent, and then the decision has none,
  or a number, and then the decision has that number, whatever the action is.
\<close>

theorem accepted_reply_contract:
  "parseAndValidateResponse JSON_parse rawResponse = Inr (Some d) \<Longrightarrow>
   \<exists>parsed a r. JSON_parse rawResponse = Inr parsed
     \<and> getProp parsed ''action'' = Inr (Str a) \<and> a \<noteq> [] \<and> decision_action d = a
     \<and> getProp parsed ''reasoning'' = Inr (Str r) \<and> r \<noteq> [] \<and> reasoning d = r
     \<and> (getProp parsed ''itemId'' = Inr Undefined \<and> itemId d = None
        \<or> (\<exists>n. getProp parsed ''itemId'' = Inr (Num n) \<and> itemId d = Some n))"
  by (auto simp add: parseAndValidateResponse_def try_catch_def truthy_def isString_def isNumber_def
      asAIDecision_def optProp_def split: sum.splits if_splits jsval.splits)

theorem accepted_reply_contract_witness:
  \<open>parseAndValidateResponse
     (parsesTo ''{"action":"train","itemId":1,"reasoning":"rest first"}''
        (Obj [(''action'', Str ''train''), (''itemId'', Num (Fin 1)), (''reasoning'', Str ''rest first'')]))
     (Str ''{"action":"train","itemId":1,"reasoning":"rest first"}'')
   = Inr (Some \<lparr>decision_action = ''train'', itemId = Some (Fin 1), reasoning = ''rest first'',
                 confidence = Undefined\<rparr>)
   \<and> (\<exists>parsed a r.
         parsesTo ''{"action":"train","itemId":1,"reasoning":"rest first"}''
           (Obj [(''action'', Str ''train''), (''itemId'', Num (Fin 1)), (''reasoning'', Str ''rest first'')])
           (Str ''{"action":"train","itemId":1,"reasoning":"rest first"}'') = Inr parsed
       \<and> getProp parsed ''action'' = Inr (Str a) \<and> a \<noteq> [] \<and> a = ''train''
       \<and> getProp parsed ''reasoning'' = Inr (Str r) \<and> r \<noteq> [] \<and> r = ''rest first''
       \<and> getProp parsed ''itemId'' = Inr (Num (Fin 1)))\<close>
proof -
  have acc: \<open>parseAndValidateResponse
     (parsesTo ''{"action":"train","itemId":1,"reasoning":"rest first"}''
        (Obj [(''action'', Str ''train''), (''itemId'', Num (Fin 1)), (''reasoning'', Str ''rest first'')]))
     (Str ''{"action":"train","itemId":1,"reasoning":"rest first"}'')
   = Inr (Some \<lparr>decision_action = ''train'', itemId = Some (Fin 1), reasoning = ''rest first'',
                 confidence = Undefined\<rparr>)\<close>
    by (simp add: parseAndValidateResponse_def parsesTo_def try_catch_def getProp_def truthy_def
        isString_def isNumber_def asAIDecision_def optProp_def)
  from accepted_reply_contract [OF acc] acc show ?thesis by auto
qed

subsection \<open>\<open>getDecision\<close>\<close>

lemma callsOf_append: "callsOf (xs @ ys) = callsOf xs @ callsOf ys"
  by (induction xs rule: callsOf.induct) simp_all

lemma sleepsOf_append: "sleepsOf (xs @ ys) = sleepsOf xs @ sleepsOf ys"
  by (induction xs rule: sleepsOf.induct) simp_all

lemma decisionStep_no_throw:
  "\<exists>c. fst (decisionStep cfg J post p a) = Inr c"
  by (simp add: decisionStep_def try_catch_io_def decisionCatch_def split: sum.splits)

lemma decisionStep_calls:
  "callsOf (snd (decisionStep cfg J post p a)) = [a]"
  by (simp add: decisionStep_def try_catch_io_def decisionCatch_def decisionAttempt_def
      callsOf_append split: sum.splits)

lemma getDecision_from_unfold:
  "getDecision_from cfg J post p a =
     (if a \<le> aiSettings_maxRetries cfg then
        (case fst (decisionStep cfg J post p a) of
              Inl e \<Rightarrow> (Inl e, snd (decisionStep cfg J post p a))
            | Inr (Return d) \<Rightarrow> (Inr d, snd (decisionStep cfg J post p a))
            | Inr Break \<Rightarrow> (Inr fallbackDecision, snd (decisionStep cfg J post p a))
            | Inr Next \<Rightarrow>
               (fst (getDecision_from cfg J post p (a + 1)),
                snd (decisionStep cfg J post p a) @ snd (getDecision_from cfg J post p (a + 1))))
      else (Inr fallbackDecision, []))"
  by (subst getDecision_from.simps) (simp only: Let_def)

lemma getDecision_from_never_raises:
  "\<exists>d. fst (getDecision_from cfg J post p a) = Inr d"
proof (induction "Suc (aiSettings_maxRetries cfg) - a" arbitrary: a)
  case 0
  then have "\<not> a \<le> aiSettings_maxRetries cfg" by simp
  then show ?case by (subst getDecision_from_unfold) simp
next
  case (Suc n)
  then have le: "a \<le> aiSettings_maxRetries cfg"
    and n: "n = Suc (aiSettings_maxRetries cfg) - (a + 1)"
    by simp_all
  obtain c where c: "fst (decisionStep cfg J post p a) = Inr c"
    using decisionStep_no_throw by blast
  show ?case
  proof (cases c)
    case (Return d)
    with c le show ?thesis by (subst getDecision_from_unfold) simp
  next
    case Break
    with c le show ?thesis by (subst getDecision_from_unfold) simp
  next
    case Next
    from Suc.hyps(1) [OF n] obtain d where "fst (getDecision_from cfg J post p (a + 1)) = Inr d"
      by blast
    with Next c le show ?thesis by (subst getDecision_from_unfold) simp
  qed
qed

lemma getDecision_from_exhausted:
  assumes "\<And>k d. a \<le> k \<Longrightarrow> k \<le> aiSettings_maxRetries cfg \<Longrightarrow>
             fst (decisionAttempt J post p k) \<noteq> Inr (Return d)"
  shows "fst (getDecision_from cfg J post p a) = Inr fallbackDecision"
  using assms
proof (induction "Suc (aiSettings_maxRetries cfg) - a" arbitrary: a)
  case 0
  then have "\<not> a \<le> aiSettings_maxRetries cfg" by simp
  then show ?case by (subst getDecision_from_unfold) simp
next
  case (Suc n)
  then have le: "a \<le> aiSettings_maxRetries cfg"
    and n: "n = Suc (aiSettings_maxRetries cfg) - (a + 1)"
    by simp_all
  have noret: "fst (decisionStep cfg J post p a) \<noteq> Inr (Return d)" for d
    using Suc.prems [of a d] le
    by (auto simp add: decisionStep_def try_catch_io_def decisionCatch_def
        split: sum.splits if_splits)
  obtain c where c: "fst (decisionStep cfg J post p a) = Inr c"
    using decisionStep_no_throw by blast
  show ?case
  proof (cases c)
    case (Return d)
    with c noret show ?thesis by simp
  next
    case Break
    with c le show ?thesis by (subst getDecision_from_unfold) simp
  next
    case Next
    have "fst (getDecision_from cfg J post p (a + 1)) = Inr fallbackDecision"
      by (rule Suc.hyps(1) [OF n]) (use Suc.prems in auto)
    with Next c le show ?thesis by (subst getDecision_from_unfold) simp
  qed
qed

lemma getDecision_from_calls:
  "\<exists>n. n \<le> Suc (aiSettings_maxRetries cfg) - a
      \<and> callsOf (snd (getDecision_from cfg J post p a)) = [a..<a + n]"
proof (induction "Suc (aiSettings_maxRetries cfg) - a" arbitrary: a)
  case 0
  then have "\<not> a \<le> aiSettings_maxRetries cfg" by simp
  then show ?case by (subst getDecision_from_unfold) simp
next
  case (Suc n)
  then have le: "a \<le> aiSettings_maxRetries cfg"
    and n: "n = Suc (aiSettings_maxRetries cfg) - (a + 1)"
    by simp_all
  obtain c where c: "fst (decisionStep cfg J post p a) = Inr c"
    using decisionStep_no_throw by blast
  have one: "callsOf (snd (getDecision_from cfg J post p a)) = [a..<a + 1]" if "c \<noteq> Next"
    using that c le by (subst getDecision_from_unfold) (cases c; simp add: decisionStep_calls)
  show ?case
  proof (cases "c = Next")
    case False
    from one [OF False] Suc.hyps(2) show ?thesis
      by (intro exI [of _ 1]) simp
  next
    case True
    from Suc.hyps(1) [OF n] obtain m where m: "m \<le> Suc (aiSettings_maxRetries cfg) - (a + 1)"
        "callsOf (snd (getDecision_from cfg J post p (a + 1))) = [a + 1..<a + 1 + m]" by blast
    have "callsOf (snd (getDecision_from cfg J post p a)) = a # [a + 1..<a + 1 + m]"
      using True c le m(2)
      by (subst getDecision_from_unfold) (simp add: callsOf_append decisionStep_calls)
    also have "\<dots> = [a..<a + Suc m]" by (simp add: upt_rec)
    finally show ?thesis using m(1) le by (intro exI [of _ "Suc m"]) simp
  qed
qed

text \<open>
  C1. For every configuration, prompt, \<open>JSON.parse\<close> and behaviour of the decision service,
  \<open>getDecision\<close> returns a decision and no exception leaves it (the loop is a function with
  a termination proof, and its result is never \<open>Inl\<close>); it makes the requests
  \<open>1, \<dots>, n\<close> for some \<open>n\<close> up to \<open>maxRetries\<close> and no other. When none of the attempts
  \<open>1, \<dots>, maxRetries\<close> returns a valid decision, because the request failed or the reply was
  empty or malformed, the result is the fallback decision, whose action is \<open>train\<close>.
\<close>

theorem getDecision_total_with_fallback:
  "(\<exists>d. fst (getDecision cfg JSON_parse post strategicPrompt) = Inr d) \<and>
   (\<exists>n \<le> aiSettings_maxRetries cfg.
      callsOf (snd (getDecision cfg JSON_parse post strategicPrompt)) = [1..<Suc n]) \<and>
   ((\<forall>k d. 1 \<le> k \<and> k \<le> aiSettings_maxRetries cfg \<longrightarrow>
        fst (decisionAttempt JSON_parse post strategicPrompt k) \<noteq> Inr (Return d)) \<longrightarrow>
      fst (getDecision cfg JSON_parse post strategicPrompt) = Inr fallbackDecision) \<and>
   decision_action fallbackDecision = ''train''"
proof -
  have a: "\<exists>d. fst (getDecision cfg JSON_parse post strategicPrompt) = Inr d"
    unfolding getDecision_def by (rule getDecision_from_never_raises)
  have b: "\<exists>n \<le> aiSettings_maxRetries cfg.
      callsOf (snd (getDecision cfg JSON_parse post strategicPrompt)) = [1..<Suc n]"
    using getDecision_from_calls [of cfg 1 JSON_parse post strategicPrompt]
    unfolding getDecision_def by auto
  have c: "fst (getDecision cfg JSON_parse post strategicPrompt) = Inr fallbackDecision"
    if "\<forall>k d. 1 \<le> k \<and> k \<le> aiSettings_maxRetries cfg \<longrightarrow>
        fst (decisionAttempt JSON_parse post strategicPrompt k) \<noteq> Inr (Return d)"
    unfolding getDecision_def by (rule getDecision_from_exhausted) (use that in auto)
  have d: "decision_action fallbackDecision = ''train''"
    by (simp add: fallbackDecision_def)
  from a b c d show ?thesis by blast
qed

theorem getDecision_total_with_fallback_witness:
  "fst (getDecision (CONFIG False) (\<lambda>x. Inl (Error ''Unexpected token''))
          (\<lambda>k prompt. Inr (chatReply (Str ''I would rather not say''))) ''What next?'')
   = Inr fallbackDecision"
proof -
  have "fst (decisionAttempt (\<lambda>x. Inl (Error ''Unexpected token''))
          (\<lambda>k prompt. Inr (chatReply (Str ''I would rather not say''))) ''What next?'' k)
        \<noteq> Inr (Return d)" for k d
    by (simp add: decisionAttempt_def chatReply_def getProp_def getIndex0_def optProp_def
        truthy_def parseAndValidateResponse_def try_catch_def)
  then show ?thesis
    using getDecision_total_with_fallback [of "CONFIG False" "\<lambda>x. Inl (Error ''Unexpected token'')"
        "\<lambda>k prompt. Inr (chatReply (Str ''I would rather not say''))" "''What next?''"]
    by blast
qed

text \<open>
  Two runs with the shipped configuration (three attempts): a service whose every request
  times out, and one whose every reply is not JSON. Only a failed request is followed by
  a sleep.
\<close>

lemma getDecision_on_timeouts:
  "getDecision (CONFIG False) (\<lambda>x. Inl (Error ''Unexpected token''))
     (\<lambda>k prompt. Inl timeoutError) ''What next?''
   = (Inr fallbackDecision, [Call 1, Sleep 2000, Call 2, Sleep 4000, Call 3])"
  by code_simp

lemma getDecision_on_malformed_replies:
  "getDecision (CONFIG False) (\<lambda>x. Inl (Error ''Unexpected token''))
     (\<lambda>k prompt. Inr (chatReply (Str ''I would rather not say''))) ''What next?''
   = (Inr fallbackDecision, [Call 1, Call 2, Call 3])"
  by code_simp

section \<open>Properties of the Action Executor\<close>

subsection \<open>Classification of an error message\<close>

lemma startsWith_iff: "startsWith s k \<longleftrightarrow> (\<exists>ss. s = k @ ss)"
  by (induction s k rule: startsWith.induct) auto

lemma str_includes_iff: "str_includes s k \<longleftrightarrow> (\<exists>ps ss. s = ps @ k @ ss)"
proof (induction s)
  case Nil
  then show ?case by simp
next
  case (Cons c cs)
  show ?case
  proof
    assume "str_includes (c # cs) k"
    then consider "startsWith (c # cs) k" | "str_includes cs k" by auto
    then show "\<exists>ps ss. c # cs = ps @ k @ ss"
    proof cases
      case 1
      then obtain ss where "c # cs = k @ ss" unfolding startsWith_iff by blast
      then have "c # cs = [] @ k @ ss" by simp
      then show ?thesis by blast
    next
      case 2
      with Cons obtain ps ss where "cs = ps @ k @ ss" by blast
      then have "c # cs = (c # ps) @ k @ ss" by simp
      then show ?thesis by blast
    qed
  next
    assume "\<exists>ps ss. c # cs = ps @ k @ ss"
    then obtain ps ss where eq: "c # cs = ps @ k @ ss" by blast
    show "str_includes (c # cs) k"
    proof (cases ps)
      case Nil
      with eq have "startsWith (c # cs) k" unfolding startsWith_iff by auto
      then show ?thesis by simp
    next
      case (Cons p ps')
      with eq have "cs = ps' @ k @ ss" by simp
      with Cons.IH have "str_includes cs k" by blast
      then show ?thesis by simp
    qed
  qed
qed

lemma str_includes_toLowerCase:
  assumes "str_includes s k" and "toLowerCase k = k"
  shows "str_includes (toLowerCase s) k"
proof -
  from assms(1) obtain ps ss where "s = ps @ k @ ss" unfolding str_includes_iff by blast
  then have "toLowerCase s = toLowerCase ps @ toLowerCase k @ toLowerCase ss"
    by (simp add: toLowerCase_def)
  with assms(2) show ?thesis unfolding str_includes_iff by metis
qed

lemma keywords_lower: "keyword \<in> set nonRetryableKeywords \<Longrightarrow> toLowerCase keyword = keyword"
  by (auto simp add: nonRetryableKeywords_def toLowerCase_def lowerChar_def)

lemma keyword_nonretryable:
  "keyword \<in> set nonRetryableKeywords \<Longrightarrow> str_includes errorMsg keyword \<Longrightarrow>
   isNonRetryableError errorMsg"
  unfolding isNonRetryableError_def Let_def list_ex_iff
  using str_includes_toLowerCase keywords_lower by blast

subsection \<open>The retry loop\<close>

lemma executeTransaction_from_unfold:
  "executeTransaction_from cfg ledger act options a =
     (if a \<le> behaviorSettings_maxRetries cfg then
        (case fst (transactionStep cfg ledger act options a) of
              Inl e \<Rightarrow> (Inl e, snd (transactionStep cfg ledger act options a))
            | Inr (Return receipt) \<Rightarrow> (Inr receipt, snd (transactionStep cfg ledger act options a))
            | Inr Break \<Rightarrow> (Inr None, snd (transactionStep cfg ledger act options a))
            | Inr Next \<Rightarrow>
               (fst (executeTransaction_from cfg ledger act options (Suc a)),
                snd (transactionStep cfg ledger act options a)
                  @ snd (executeTransaction_from cfg ledger act options (Suc a))))
      else (Inr None, []))"
  by (subst executeTransaction_from.simps) (simp only: Let_def Suc_eq_plus1)

lemma step_nonretryable:
  assumes "fst (transactionAttempt cfg ledger act options a) = Inl e"
    and "isNonRetryableError (errorMsgOf e)"
  shows "transactionStep cfg ledger act options a =
     (Inl (Error (''Non-retryable error for '' @ capitalize act @ '': '' @ errorMsgOf e)),
      snd (transactionAttempt cfg ledger act options a))"
  using assms by (simp add: transactionStep_def try_catch_io_def transactionCatch_def Let_def)

lemma step_last_retryable:
  assumes "fst (transactionAttempt cfg ledger act options (behaviorSettings_maxRetries cfg)) = Inl e"
    and "\<not> isNonRetryableError (errorMsgOf e)"
  shows "transactionStep cfg ledger act options (behaviorSettings_maxRetries cfg) =
     (Inl (Error (''Action '' @ capitalize act @ '' failed after all retries.'')),
      snd (transactionAttempt cfg ledger act options (behaviorSettings_maxRetries cfg)))"
  using assms by (simp add: transactionStep_def try_catch_io_def transactionCatch_def Let_def)

lemma step_retryable:
  assumes "failsRetryably cfg ledger act options a" and "a \<noteq> behaviorSettings_maxRetries cfg"
  shows "transactionStep cfg ledger act options a =
     (Inr Next, snd (transactionAttempt cfg ledger act options a) @ [Sleep (3000 * a)])"
  using assms
  by (auto simp add: failsRetryably_def transactionStep_def try_catch_io_def transactionCatch_def
      Let_def split: sum.splits)

lemma retries_then:
  assumes "k \<le> behaviorSettings_maxRetries cfg"
    and "\<And>j. a \<le> j \<Longrightarrow> j < k \<Longrightarrow> failsRetryably cfg ledger act options j"
    and "a \<le> k"
  shows "executeTransaction_from cfg ledger act options a =
     (fst (executeTransaction_from cfg ledger act options k),
      retryTrace cfg ledger act options a k @ snd (executeTransaction_from cfg ledger act options k))"
  using assms(2,3)
proof (induction "k - a" arbitrary: a)
  case 0
  then have "a = k" by simp
  then show ?case by (simp add: retryTrace_def)
next
  case (Suc n)
  then have lt: "a < k" and n: "n = k - Suc a" by simp_all
  have step: "transactionStep cfg ledger act options a =
     (Inr Next, snd (transactionAttempt cfg ledger act options a) @ [Sleep (3000 * a)])"
    using Suc.prems(1) [of a] lt assms(1) by (intro step_retryable) simp_all
  have rest: "executeTransaction_from cfg ledger act options (Suc a) =
     (fst (executeTransaction_from cfg ledger act options k),
      retryTrace cfg ledger act options (Suc a) k
        @ snd (executeTransaction_from cfg ledger act options k))"
    by (rule Suc.hyps(1) [OF n]) (use Suc.prems lt in auto)
  have tr: "retryTrace cfg ledger act options a k =
     (snd (transactionAttempt cfg ledger act options a) @ [Sleep (3000 * a)])
       @ retryTrace cfg ledger act options (Suc a) k"
    using lt by (simp add: retryTrace_def upt_rec [of a k])
  from lt assms(1) have le: "a \<le> behaviorSettings_maxRetries cfg" by simp
  show ?case
    by (subst executeTransaction_from_unfold) (simp add: le step rest tr)
qed

lemma nonretryable_stops:
  assumes "k \<le> behaviorSettings_maxRetries cfg"
    and "fst (transactionAttempt cfg ledger act options k) = Inl e"
    and "isNonRetryableError (errorMsgOf e)"
  shows "executeTransaction_from cfg ledger act options k =
     (Inl (Error (''Non-retryable error for '' @ capitalize act @ '': '' @ errorMsgOf e)),
      snd (transactionAttempt cfg ledger act options k))"
  by (subst executeTransaction_from_unfold) (simp add: assms step_nonretryable)

lemma exhausted_raises:
  assumes "fst (transactionAttempt cfg ledger act options (behaviorSettings_maxRetries cfg)) = Inl e"
    and "\<not> isNonRetryableError (errorMsgOf e)"
  shows "executeTransaction_from cfg ledger act options (behaviorSettings_maxRetries cfg) =
     (Inl (Error (''Action '' @ capitalize act @ '' failed after all retries.'')),
      snd (transactionAttempt cfg ledger act options (behaviorSettings_maxRetries cfg)))"
  by (subst executeTransaction_from_unfold) (simp add: step_last_retryable [OF assms])

lemma live_attempt_sleeps:
  "\<not> simulationMode cfg \<Longrightarrow> sleepsOf (snd (transactionAttempt cfg ledger act options j)) = []"
  by (simp add: transactionAttempt_def sendAction_def Let_def split: option.splits)

lemma live_retryTrace_sleeps:
  assumes "\<not> simulationMode cfg"
  shows "sleepsOf (retryTrace cfg ledger act options a k) = map (\<lambda>j. 3000 * j) [a..<k]"
proof -
  have "sleepsOf (concat (map (\<lambda>j. snd (transactionAttempt cfg ledger act options j)
            @ [Sleep (3000 * j)]) js)) = map (\<lambda>j. 3000 * j) js" for js
    by (induction js) (simp_all add: sleepsOf_append live_attempt_sleeps [OF assms])
  then show ?thesis by (simp add: retryTrace_def)
qed

text \<open>
  C9. In live mode, with the pre-flight checks passed, let the attempts before the \<open>k\<close>-th
  each have failed with an error that is retried. If the \<open>k\<close>-th attempt fails with an error
  whose message \<open>isNonRetryableError\<close> recognises, \<open>executeTransaction\<close> raises the
  non-retryable error at once: after that attempt there is no sleep and no further
  attempt. If the \<open>k\<close>-th attempt is the last one allowed and fails with any other error,
  \<open>executeTransaction\<close> raises the final error. In both cases every earlier attempt \<open>j\<close>
  was followed by a sleep of \<open>3000 * j\<close> milliseconds, and these are all the sleeps.
  A message that contains one of the five keywords is recognised (the search is made in
  the lower-cased message). The message examined is \<open>error.reason\<close> when that is non-empty,
  else \<open>error.message\<close>.
\<close>

theorem executor_error_classification:
  "(\<forall>keyword \<in> set nonRetryableKeywords.
      str_includes errorMsg keyword \<longrightarrow> isNonRetryableError errorMsg) \<and>
   (\<not> simulationMode cfg \<and> 1 \<le> k \<and> k \<le> behaviorSettings_maxRetries cfg
      \<and> (\<forall>j. 1 \<le> j \<and> j < k \<longrightarrow> failsRetryably cfg ledger act options j) \<longrightarrow>
      (\<forall>e. fst (transactionAttempt cfg ledger act options k) = Inl e
            \<and> isNonRetryableError (errorMsgOf e) \<longrightarrow>
          executeTransaction cfg (Inr ()) ledger act options =
            (Inl (Error (''Non-retryable error for '' @ capitalize act @ '': '' @ errorMsgOf e)),
             retryTrace cfg ledger act options 1 k
               @ snd (transactionAttempt cfg ledger act options k))) \<and>
      (k = behaviorSettings_maxRetries cfg \<and> failsRetryably cfg ledger act options k \<longrightarrow>
          executeTransaction cfg (Inr ()) ledger act options =
            (Inl (Error (''Action '' @ capitalize act @ '' failed after all retries.'')),
             retryTrace cfg ledger act options 1 k
               @ snd (transactionAttempt cfg ledger act options k))) \<and>
      sleepsOf (retryTrace cfg ledger act options 1 k
                  @ snd (transactionAttempt cfg ledger act options k))
        = map (\<lambda>j. 3000 * j) [1..<k])"
proof -
  have kw: "\<forall>keyword \<in> set nonRetryableKeywords.
      str_includes errorMsg keyword \<longrightarrow> isNonRetryableError errorMsg"
    using keyword_nonretryable by blast
  {
    assume live: "\<not> simulationMode cfg" and k: "1 \<le> k" "k \<le> behaviorSettings_maxRetries cfg"
      and before: "\<forall>j. 1 \<le> j \<and> j < k \<longrightarrow> failsRetryably cfg ledger act options j"
    have run: "executeTransaction cfg (Inr ()) ledger act options =
        (fst (executeTransaction_from cfg ledger act options k),
         retryTrace cfg ledger act options 1 k
           @ snd (executeTransaction_from cfg ledger act options k))"
      using retries_then [of k cfg 1 ledger act options] live k before
      by (simp add: executeTransaction_def)
    have stop: "executeTransaction cfg (Inr ()) ledger act options =
            (Inl (Error (''Non-retryable error for '' @ capitalize act @ '': '' @ errorMsgOf e)),
             retryTrace cfg ledger act options 1 k
               @ snd (transactionAttempt cfg ledger act options k))"
      if "fst (transactionAttempt cfg ledger act options k) = Inl e"
        and "isNonRetryableError (errorMsgOf e)" for e
      unfolding run using nonretryable_stops [OF k(2) that] by simp
    have final: "executeTransaction cfg (Inr ()) ledger act options =
            (Inl (Error (''Action '' @ capitalize act @ '' failed after all retries.'')),
             retryTrace cfg ledger act options 1 k
               @ snd (transactionAttempt cfg ledger act options k))"
      if last: "k = behaviorSettings_maxRetries cfg"
        and fails: "failsRetryably cfg ledger act options k"
    proof -
      from fails obtain e where e: "fst (transactionAttempt cfg ledger act options k) = Inl e"
          "\<not> isNonRetryableError (errorMsgOf e)"
        by (auto simp add: failsRetryably_def split: sum.splits)
      show ?thesis
        unfolding run using exhausted_raises [of cfg ledger act options e] e last by simp
    qed
    have sleeps: "sleepsOf (retryTrace cfg ledger act options 1 k
                  @ snd (transactionAttempt cfg ledger act options k))
        = map (\<lambda>j. 3000 * j) [1..<k]"
      by (simp add: sleepsOf_append live_retryTrace_sleeps [OF live] live_attempt_sleeps [OF live])
    note stop final sleeps
  }
  with kw show ?thesis by blast
qed

theorem executor_error_classification_witness:
  "executeTransaction (CONFIG False) (Inr ()) (\<lambda>k call. Inl timeoutError) ''train''
      \<lparr>playerName = None, opt_itemId = None\<rparr>
   = (Inl (Error ''Action Train failed after all retries.''),
      [Call 1, Sleep 3000, Call 2, Sleep 6000, Call 3])
   \<and> executeTransaction (CONFIG False) (Inr ())
        (\<lambda>k call. if k = 1 then Inl timeoutError else Inl (Error ''nonce too low'')) ''train''
        \<lparr>playerName = None, opt_itemId = None\<rparr>
   = (Inl (Error ''Non-retryable error for Train: nonce too low''), [Call 1, Sleep 3000, Call 2])
   \<and> isNonRetryableError ''execution reverted: Not enough gold''"
proof -
  let ?cfg = "CONFIG False"
  let ?opts = "\<lparr>playerName = None, opt_itemId = None\<rparr>"
  let ?slow = "\<lambda>(k::nat) (call::contract_call). (Inl timeoutError :: js_error + tx option)"
  let ?nonce = "\<lambda>(k::nat) (call::contract_call).
      (if k = 1 then Inl timeoutError else Inl (Error ''nonce too low'') :: js_error + tx option)"
  have live: "\<not> simulationMode ?cfg" and max: "behaviorSettings_maxRetries ?cfg = 3"
    by (simp_all add: CONFIG_def)
  have t: "\<not> isNonRetryableError (errorMsgOf timeoutError)" by code_simp
  have n: "isNonRetryableError (errorMsgOf (Error ''nonce too low''))" by code_simp
  have slow_fails: "failsRetryably ?cfg ?slow ''train'' ?opts j" for j
    using t by (simp add: failsRetryably_def transactionAttempt_def sendAction_def live Let_def)
  have nonce_first: "failsRetryably ?cfg ?nonce ''train'' ?opts 1"
    using t by (simp add: failsRetryably_def transactionAttempt_def sendAction_def live Let_def)
  have nonce_second: "fst (transactionAttempt ?cfg ?nonce ''train'' ?opts 2) = Inl (Error ''nonce too low'')"
    by (simp add: transactionAttempt_def sendAction_def live Let_def)
  have tr1: "retryTrace ?cfg ?slow ''train'' ?opts 1 3
               @ snd (transactionAttempt ?cfg ?slow ''train'' ?opts 3)
             = [Call 1, Sleep 3000, Call 2, Sleep 6000, Call 3]"
    by code_simp
  have tr2: "retryTrace ?cfg ?nonce ''train'' ?opts 1 2
               @ snd (transactionAttempt ?cfg ?nonce ''train'' ?opts 2)
             = [Call 1, Sleep 3000, Call 2]"
    by code_simp
  have c: "capitalize ''train'' = ''Train''" by code_simp
  have m: "errorMsgOf (Error ''nonce too low'') = ''nonce too low''" by code_simp
  have H1: "\<not> simulationMode ?cfg \<and> 1 \<le> (3::nat) \<and> 3 \<le> behaviorSettings_maxRetries ?cfg
      \<and> (\<forall>j. 1 \<le> j \<and> j < 3 \<longrightarrow> failsRetryably ?cfg ?slow ''train'' ?opts j)"
    using live max slow_fails by simp
  have L1: "3 = behaviorSettings_maxRetries ?cfg \<and> failsRetryably ?cfg ?slow ''train'' ?opts 3"
    using max slow_fails by simp
  from executor_error_classification [where cfg = ?cfg and k = 3 and ledger = ?slow
        and act = "''train''" and options = ?opts] H1 L1
  have "executeTransaction ?cfg (Inr ()) ?slow ''train'' ?opts
      = (Inl (Error (''Action '' @ capitalize ''train'' @ '' failed after all retries.'')),
         retryTrace ?cfg ?slow ''train'' ?opts 1 3
           @ snd (transactionAttempt ?cfg ?slow ''train'' ?opts 3))"
    by blast
  then have a: "executeTransaction ?cfg (Inr ()) ?slow ''train'' ?opts
      = (Inl (Error ''Action Train failed after all retries.''),
         [Call 1, Sleep 3000, Call 2, Sleep 6000, Call 3])"
    unfolding tr1 c by simp
  have "\<forall>j. 1 \<le> j \<and> j < 2 \<longrightarrow> failsRetryably ?cfg ?nonce ''train'' ?opts j"
  proof (intro allI impI)
    fix j :: nat
    assume "1 \<le> j \<and> j < 2"
    then have "j = 1" by simp
    with nonce_first show "failsRetryably ?cfg ?nonce ''train'' ?opts j" by simp
  qed
  then have H2: "\<not> simulationMode ?cfg \<and> 1 \<le> (2::nat) \<and> 2 \<le> behaviorSettings_maxRetries ?cfg
      \<and> (\<forall>j. 1 \<le> j \<and> j < 2 \<longrightarrow> failsRetryably ?cfg ?nonce ''train'' ?opts j)"
    using live max by simp
  from executor_error_classification [where cfg = ?cfg and k = 2 and ledger = ?nonce
        and act = "''train''" and options = ?opts] H2 nonce_second n
  have "executeTransaction ?cfg (Inr ()) ?nonce ''train'' ?opts
      = (Inl (Error (''Non-retryable error for '' @ capitalize ''train'' @ '': ''
                      @ errorMsgOf (Error ''nonce too low''))),
         retryTrace ?cfg ?nonce ''train'' ?opts 1 2
           @ snd (transactionAttempt ?cfg ?nonce ''train'' ?opts 2))"
    by blast
  then have b: "executeTransaction ?cfg (Inr ()) ?nonce ''train'' ?opts
      = (Inl (Error ''Non-retryable error for Train: nonce too low''), [Call 1, Sleep 3000, Call 2])"
    unfolding tr2 c m by simp
  have g: "isNonRetryableError ''execution reverted: Not enough gold''" by code_simp
  from a b g show ?thesis by blast
qed

end
